theory Spec2Isabelle
  imports Main
begin

section \<open>The world the endpoint commands act on\<close>

text \<open>
  The commands of \<^verbatim>\<open>funcx_endpoint/endpoint/endpoint.py\<close> read and write the
  directory \<^verbatim>\<open>State.FUNCX_DIR\<close>, look processes up and signal them, and log. The
  model passes that world explicitly. An endpoint name is one path component, so
  \<^verbatim>\<open>os.path.join(State.FUNCX_DIR, name)\<close> is the entry \<open>name\<close> of the directory
  listing \<open>dirs\<close>; the listing keeps the order in which \<^verbatim>\<open>glob\<close> yields it.

  An exception is a value: every command returns the world it leaves behind together
  with \<open>Inl e\<close> (the exception \<open>e\<close> left the function) or \<open>Inr r\<close> (it returned
  \<open>r\<close>). \<^verbatim>\<open>sys.exit(n)\<close> and \<^verbatim>\<open>exit(n)\<close> raise \<open>SystemExit n\<close>.
\<close>

datatype exn =
    ValueError
  | KeyError string
  | FileNotFoundError
  | OSError
  | OverflowError
  | NoSuchProcess
  | RegistrationError string
  | ConnectionError
  | Abort
  | KeyboardInterrupt
  | SystemExit int

text \<open>
  The logger runs at level INFO (\<^verbatim>\<open>State.DEBUG = False\<close>, the default of
  \<^verbatim>\<open>main\<close>), so \<^verbatim>\<open>logger.debug\<close> emits nothing and is not modelled.
\<close>

datatype level = INFO | WARNING | CRITICAL

text \<open>
  What the commands write: a log line, a printed line, and four outputs whose text is
  built from values other than strings: the two diagnostic prints of a rejected response
  (\<^verbatim>\<open>print(dir(r))\<close>, \<^verbatim>\<open>print(r)\<close>, by the response's status), the warning of the
  retry decorator (the exception and the delay), and the table of \<^verbatim>\<open>list\<close> (its rows
  under the headings Endpoint Name, Status, Endpoint ID).
\<close>

datatype event =
    Log level string
  | Print string
  | Print_dir int
  | Print_response int
  | Retry_warning exn nat
  | Table "(string \<times> string \<times> string option) list"

text \<open>
  \<^verbatim>\<open>endpoint.json\<close> holds a JSON object with string fields (\<open>Json\<close>), or text that
  \<^verbatim>\<open>json.load\<close> rejects (\<open>NotJson\<close>: the file as \<^verbatim>\<open>open(..., 'w+')\<close> leaves it
  when nothing is dumped into it). \<^verbatim>\<open>daemon.pid\<close> is kept as what \<^verbatim>\<open>int()\<close>
  makes of its text: \<open>Some n\<close>, or \<open>None\<close> when \<^verbatim>\<open>int()\<close> raises ValueError.
\<close>

type_synonym json = "(string \<times> string) list"

datatype json_file = Json json | NotJson

record config =
  funcx_service_address :: string
  detach_endpoint :: bool
  stdout :: string
  stderr :: string

record endpoint_dir =
  config_py :: "config option"
  endpoint_json :: "json_file option"
  daemon_pid :: "int option option"
  other_files :: "string list"

text \<open>
  A process has the name \<^verbatim>\<open>psutil\<close> reports, may or may not be signalled by the
  caller (\<^verbatim>\<open>os.kill\<close> raises PermissionError, an OSError, otherwise), and reacts to
  SIGTERM in one of four ways before the next signal of \<^verbatim>\<open>stop_endpoint\<close> arrives:
  it dies and leaves every file as it is; it removes the pidfile of an endpoint (as the
  daemon context does on exit) and is gone; it removes that pidfile and is still running;
  or it has not reacted yet.
\<close>

datatype term_reaction =
    Dies
  | Releases_and_exits string
  | Releases_and_lingers string
  | Lingers

record process =
  pname :: string
  may_signal :: bool
  on_term :: term_reaction

record world =
  dirs :: "(string \<times> endpoint_dir) list"
  procs :: "int \<Rightarrow> process option"
  out :: "event list"

definition emit :: "event \<Rightarrow> world \<Rightarrow> world" where
  "emit e w = w\<lparr>out := out w @ [e]\<rparr>"

definition lookup_dir :: "world \<Rightarrow> string \<Rightarrow> endpoint_dir option" where
  "lookup_dir w name = map_of (dirs w) name"

text \<open>The text of \<^verbatim>\<open><FUNCX_DIR>/<name>/daemon.pid\<close>, when that file exists.\<close>

definition pidfile :: "world \<Rightarrow> string \<Rightarrow> int option option" where
  "pidfile w name = (case lookup_dir w name of None \<Rightarrow> None | Some d \<Rightarrow> daemon_pid d)"

text \<open>Rewriting one directory in place; a name that is not listed is left alone.\<close>

fun update_dir :: "string \<Rightarrow> (endpoint_dir \<Rightarrow> endpoint_dir) \<Rightarrow>
    (string \<times> endpoint_dir) list \<Rightarrow> (string \<times> endpoint_dir) list" where
  "update_dir name f [] = []"
| "update_dir name f ((n, d) # ds) =
     (if n = name then (n, f d) # ds else (n, d) # update_dir name f ds)"

definition remove_pidfile :: "string \<Rightarrow> world \<Rightarrow> world" where
  "remove_pidfile name w = w\<lparr>dirs := update_dir name (\<lambda>d. d\<lparr>daemon_pid := None\<rparr>) (dirs w)\<rparr>"

section \<open>check_pidfile\<close>

record pid_record =
  exists :: nat
  active :: nat

text \<open>
  \<^verbatim>\<open>psutil.Process(pid).name()\<close>: ValueError on a negative pid, NoSuchProcess when no
  process has the pid.
\<close>

definition psutil_name :: "world \<Rightarrow> int \<Rightarrow> exn + string" where
  "psutil_name w pid =
     (if pid < 0 then Inl ValueError
      else case procs w pid of None \<Rightarrow> Inl NoSuchProcess | Some p \<Rightarrow> Inr (pname p))"

definition cleanup_hint :: "string \<Rightarrow> string" where
  "cleanup_hint endpoint_name =
     ''Please cleanup using:'' @ [CHR 0x0A] @ ''    $ funcx-endpoint stop '' @ endpoint_name"

definition check_pidfile :: "world \<Rightarrow> string \<Rightarrow> string \<Rightarrow> string \<Rightarrow> bool \<Rightarrow>
    world \<times> (exn + pid_record)" where
  "check_pidfile w dir match_name endpoint_name log =
     (case pidfile w dir of
        None \<Rightarrow> (w, Inr \<lparr>exists = 0, active = 0\<rparr>)
      | Some txt \<Rightarrow>
         (case txt of
            None \<Rightarrow> (w, Inl ValueError)
          | Some older_pid \<Rightarrow>
             (case (case psutil_name w older_pid of
                      Inr nm \<Rightarrow> Inr (nm = match_name)
                    | Inl NoSuchProcess \<Rightarrow> Inr False
                    | Inl e \<Rightarrow> Inl e) of
                Inl e \<Rightarrow> (w, Inl e)
              | Inr proc_found \<Rightarrow>
                 (let w1 =
                    (if log then
                       (if proc_found then emit (Log INFO ''Endpoint is already active'') w
                        else emit (Log INFO (cleanup_hint endpoint_name))
                          (emit (Log INFO
                            ''A prior Endpoint instance appears to have been terminated without proper cleanup'')
                            w))
                     else w)
                  in if proc_found then (w1, Inr \<lparr>exists = 1, active = 1\<rparr>)
                     else (w1, Inr \<lparr>exists = 1, active = 0\<rparr>)))))"

text \<open>The default of the parameter \<^verbatim>\<open>match_name\<close>.\<close>

definition default_match_name :: string where
  "default_match_name = ''funcx-endpoint''"

section \<open>stop_endpoint\<close>

datatype signal = SIGTERM | SIGKILL

text \<open>
  \<^verbatim>\<open>os.kill(pid, sig)\<close>: OverflowError, which is no OSError, when the pid does not fit
  the C type \<^verbatim>\<open>pid_t\<close> (a signed 32-bit integer), before anything is signalled;
  for a positive pid, ProcessLookupError when no process has the pid and PermissionError
  when the caller may not signal it (both are OSError). SIGKILL ends the process and
  touches no file; SIGTERM lets the process react. Signalling a process group
  (\<open>pid \<le> 0\<close>) is outside the model.
\<close>

definition end_process :: "int \<Rightarrow> world \<Rightarrow> world" where
  "end_process pid w = w\<lparr>procs := (procs w)(pid := None)\<rparr>"

definition os_kill :: "world \<Rightarrow> int \<Rightarrow> signal \<Rightarrow> world \<times> (exn + unit)" where
  "os_kill w pid sig =
     (if pid < - 2147483648 \<or> 2147483647 < pid then (w, Inl OverflowError)
      else
        (case procs w pid of
           None \<Rightarrow> (w, Inl OSError)
         | Some p \<Rightarrow>
            (if \<not> may_signal p then (w, Inl OSError)
             else (case sig of
                     SIGKILL \<Rightarrow> (end_process pid w, Inr ())
                   | SIGTERM \<Rightarrow>
                      (case on_term p of
                         Dies \<Rightarrow> (end_process pid w, Inr ())
                       | Releases_and_exits n \<Rightarrow> (remove_pidfile n (end_process pid w), Inr ())
                       | Releases_and_lingers n \<Rightarrow> (remove_pidfile n w, Inr ())
                       | Lingers \<Rightarrow> (w, Inr ()))))))"

text \<open>
  The handler \<^verbatim>\<open>except OSError\<close> of \<^verbatim>\<open>stop_endpoint\<close>: two warnings,
  \<^verbatim>\<open>os.remove(pid_file)\<close> (FileNotFoundError when the file is gone by then), then
  \<^verbatim>\<open>sys.exit(-1)\<close>. Any other exception, the OverflowError of \<^verbatim>\<open>os.kill\<close>
  among them, passes through.
\<close>

definition stop_cleanup :: "string \<Rightarrow> world \<Rightarrow> exn \<Rightarrow> world \<times> (exn + unit)" where
  "stop_cleanup name w e =
     (if e \<noteq> OSError then (w, Inl e)
      else
        (let w1 = emit (Log WARNING (''Endpoint '' @ name @ '' could not be terminated'')) w;
             w2 = emit (Log WARNING (''Attempting Endpoint '' @ name @ '' cleanup'')) w1
         in if pidfile w2 name = None then (w2, Inl FileNotFoundError)
            else (remove_pidfile name w2, Inl (SystemExit (- 1)))))"

definition stop_endpoint :: "string \<Rightarrow> world \<Rightarrow> world \<times> (exn + unit)" where
  "stop_endpoint name w =
     (case pidfile w name of
        None \<Rightarrow> (emit (Log INFO (''Endpoint <'' @ name @ ''> is not active.'')) w, Inr ())
      | Some txt \<Rightarrow>
         (case txt of
            None \<Rightarrow> (w, Inl ValueError)
          | Some pid \<Rightarrow>
             (case os_kill w pid SIGTERM of
                (w1, Inl e) \<Rightarrow> stop_cleanup name w1 e
              | (w1, Inr _) \<Rightarrow>
                 (case os_kill w1 pid SIGKILL of
                    (w2, Inl e) \<Rightarrow> stop_cleanup name w2 e
                  | (w2, Inr _) \<Rightarrow>
                     (if pidfile w2 name = None
                      then (emit (Log INFO (''Endpoint <'' @ name @ ''> is now stopped'')) w2, Inr ())
                      else (w2, Inr ()))))))"

text \<open>
  The status with which the command's process ends: the code of a SystemExit as the
  shell sees it, 1 for any other exception that leaves the command, 0 on return.
\<close>

definition exit_status :: "exn + 'a \<Rightarrow> int" where
  "exit_status r = (case r of Inr _ \<Rightarrow> 0 | Inl (SystemExit n) \<Rightarrow> n mod 256 | Inl _ \<Rightarrow> 1)"

section \<open>start_endpoint and restart_endpoint\<close>

text \<open>
  The parameter \<^verbatim>\<open>endpoint_uuid\<close> holds \<^verbatim>\<open>None\<close> or a string when the command line
  is parsed, and the declared default itself, the object \<^verbatim>\<open>typer.Option(None, ...)\<close>,
  when \<^verbatim>\<open>start_endpoint(name)\<close> is called as a plain function, as
  \<^verbatim>\<open>restart_endpoint\<close> does. \<^verbatim>\<open>not endpoint_uuid\<close> is true of \<^verbatim>\<open>None\<close> and of the
  empty string only.
\<close>

datatype py_uuid = PyNone | PyStr string | OptionInfo

definition truthy :: "py_uuid \<Rightarrow> bool" where
  "truthy u = (case u of PyNone \<Rightarrow> False | PyStr s \<Rightarrow> s \<noteq> [] | OptionInfo \<Rightarrow> True)"

definition py_str :: "py_uuid \<Rightarrow> string" where
  "py_str u = (case u of PyNone \<Rightarrow> ''None'' | PyStr s \<Rightarrow> s
     | OptionInfo \<Rightarrow> ''<typer.models.OptionInfo object>'')"

text \<open>
  What the environment supplies to one start: the value of \<^verbatim>\<open>uuid.uuid4()\<close>, the pid
  of the process that enters the daemon context, and that process as the process table
  will show it.
\<close>

record start_env =
  uuid4 :: string
  new_pid :: int
  daemon :: process

text \<open>Lines 297 to 304: the identity of the endpoint.\<close>

definition determine_uuid :: "endpoint_dir \<Rightarrow> py_uuid \<Rightarrow> string \<Rightarrow> exn + py_uuid" where
  "determine_uuid d endpoint_uuid fresh =
     (case endpoint_json d of
        Some f \<Rightarrow>
          (case f of
             NotJson \<Rightarrow> Inl ValueError
           | Json reg_info \<Rightarrow>
              (case map_of reg_info ''endpoint_id'' of
                 None \<Rightarrow> Inl (KeyError ''endpoint_id'')
               | Some i \<Rightarrow> Inr (PyStr i)))
      | None \<Rightarrow> (if \<not> truthy endpoint_uuid then Inr (PyStr fresh) else Inr endpoint_uuid))"

definition not_configured_msg :: "string \<Rightarrow> string" where
  "not_configured_msg name =
     ''Endpoint '' @ name @ '' is not configured!'' @ [CHR 0x0A] @
     ''1. Please create a configuration template with:'' @ [CHR 0x0A] @
     ''   $ funcx-endpoint configure '' @ name @ [CHR 0x0A] @
     ''2. Update configuration'' @ [CHR 0x0A] @
     ''3. Start the endpoint.'' @ [CHR 0x0A] @ ''        ''"

text \<open>\<^verbatim>\<open>open(..., 'w+')\<close> of the two stream files of a detached endpoint.\<close>

definition open_streams :: "string \<Rightarrow> config \<Rightarrow> world \<Rightarrow> world" where
  "open_streams name cfg w =
     w\<lparr>dirs := update_dir name
        (\<lambda>d. d\<lparr>other_files := List.insert (stderr cfg) (List.insert (stdout cfg) (other_files d))\<rparr>)
        (dirs w)\<rparr>"

text \<open>
  \<^verbatim>\<open>with context:\<close> the daemon context takes the pidfile lock, which writes the pid of
  the process into \<^verbatim>\<open>daemon.pid\<close>; from then on that process runs the supervision
  loop.
\<close>

definition enter_daemon :: "string \<Rightarrow> start_env \<Rightarrow> world \<Rightarrow> world" where
  "enter_daemon name env w =
     w\<lparr>dirs := update_dir name (\<lambda>d. d\<lparr>daemon_pid := Some (Some (new_pid env))\<rparr>) (dirs w),
       procs := (procs w)(new_pid env := Some (daemon env))\<rparr>"

text \<open>
  How \<^verbatim>\<open>start_endpoint\<close> goes on: it printed the guidance and returned, it returned
  at the pidfile check, or it entered the daemon context with an identity. The model
  ends there: the loop entered in the context (register, run the interchange, sleep 10,
  again) does not return, and its registration step is modelled on its own below.
  Loading \<^verbatim>\<open>config.py\<close> raises FileNotFoundError when the file is missing; the two
  \<^verbatim>\<open>FuncXClient\<close> objects and the \<^verbatim>\<open>DaemonContext\<close> are taken to be constructed
  without an exception.
\<close>

datatype start_result = Not_configured | Refused | Daemon py_uuid

definition start_endpoint :: "string \<Rightarrow> py_uuid \<Rightarrow> start_env \<Rightarrow> world \<Rightarrow>
    world \<times> (exn + start_result)" where
  "start_endpoint name endpoint_uuid env w =
     (case lookup_dir w name of
        None \<Rightarrow> (emit (Print (not_configured_msg name)) w, Inr Not_configured)
      | Some d \<Rightarrow>
         (case config_py d of
            None \<Rightarrow> (w, Inl FileNotFoundError)
          | Some cfg \<Rightarrow>
             (case determine_uuid d endpoint_uuid (uuid4 env) of
                Inl e \<Rightarrow> (w, Inl e)
              | Inr u \<Rightarrow>
                 (let w1 = emit (Log INFO (''Starting endpoint with uuid: '' @ py_str u)) w
                  in case check_pidfile w1 name default_match_name name True of
                       (w2, Inl e) \<Rightarrow> (w2, Inl e)
                     | (w2, Inr r) \<Rightarrow>
                        (if exists r \<noteq> 0 then (w2, Inr Refused)
                         else
                           (let w3 = (if detach_endpoint cfg then open_streams name cfg w2 else w2)
                            in (enter_daemon name env w3, Inr (Daemon u))))))))"

definition restart_endpoint :: "string \<Rightarrow> start_env \<Rightarrow> world \<Rightarrow>
    world \<times> (exn + start_result)" where
  "restart_endpoint name env w =
     (case stop_endpoint name w of
        (w1, Inl e) \<Rightarrow> (w1, Inl e)
      | (w1, Inr _) \<Rightarrow> start_endpoint name OptionInfo env w1)"

section \<open>list_endpoints and delete_endpoint\<close>

text \<open>
  \<^verbatim>\<open>glob.glob('{}/*/config.py')\<close>: the directories that hold a \<^verbatim>\<open>config.py\<close>;
  \<^verbatim>\<open>*\<close> does not match a name that starts with a dot.
\<close>

definition glob_config :: "world \<Rightarrow> (string \<times> endpoint_dir) list" where
  "glob_config w = filter (\<lambda>(n, d). config_py d \<noteq> None \<and> take 1 n \<noteq> ''.'') (dirs w)"

definition list_row :: "world \<Rightarrow> string \<times> endpoint_dir \<Rightarrow> exn + string \<times> string \<times> string option" where
  "list_row w nd =
     (case nd of (endpoint_name, d) \<Rightarrow>
        (case endpoint_json d of
           None \<Rightarrow> Inr (endpoint_name, ''Initialized'', None)
         | Some f \<Rightarrow>
            (case f of
               NotJson \<Rightarrow> Inl ValueError
             | Json endpoint_info \<Rightarrow>
                (case map_of endpoint_info ''endpoint_id'' of
                   None \<Rightarrow> Inl (KeyError ''endpoint_id'')
                 | Some endpoint_id \<Rightarrow>
                    (case snd (check_pidfile w endpoint_name default_match_name [] False) of
                       Inl e \<Rightarrow> Inl e
                     | Inr r \<Rightarrow>
                        Inr (endpoint_name,
                             (if active r \<noteq> 0 then ''Active'' else ''Inactive''),
                             Some endpoint_id))))))"

fun list_rows :: "world \<Rightarrow> (string \<times> endpoint_dir) list \<Rightarrow>
    exn + (string \<times> string \<times> string option) list" where
  "list_rows w [] = Inr []"
| "list_rows w (nd # nds) =
     (case list_row w nd of
        Inl e \<Rightarrow> Inl e
      | Inr row \<Rightarrow> (case list_rows w nds of Inl e \<Rightarrow> Inl e | Inr rows \<Rightarrow> Inr (row # rows)))"

definition list_endpoints :: "world \<Rightarrow> world \<times> (exn + unit)" where
  "list_endpoints w =
     (case list_rows w (glob_config w) of
        Inl e \<Rightarrow> (w, Inl e)
      | Inr rows \<Rightarrow> (emit (Table rows) w, Inr ()))"

text \<open>\<^verbatim>\<open>shutil.rmtree(endpoint_dir)\<close>: FileNotFoundError when there is no such directory.\<close>

definition rmtree :: "string \<Rightarrow> world \<Rightarrow> world \<times> (exn + unit)" where
  "rmtree name w =
     (case lookup_dir w name of
        None \<Rightarrow> (w, Inl FileNotFoundError)
      | Some _ \<Rightarrow> (w\<lparr>dirs := filter (\<lambda>(n, d). n \<noteq> name) (dirs w)\<rparr>, Inr ()))"

text \<open>
  \<open>answer\<close> is what the user replies to \<^verbatim>\<open>typer.confirm\<close>, which raises Abort on a
  no; with \<^verbatim>\<open>-y\<close> nothing is asked.
\<close>

definition delete_endpoint :: "string \<Rightarrow> bool \<Rightarrow> bool \<Rightarrow> world \<Rightarrow> world \<times> (exn + unit)" where
  "delete_endpoint name autoconfirm answer w =
     (if \<not> autoconfirm \<and> \<not> answer
      then (emit (Print (''Are you sure you want to delete the endpoint <'' @ name @ ''>?'')) w,
            Inl Abort)
      else
        (let w0 = (if autoconfirm then w
                   else emit (Print (''Are you sure you want to delete the endpoint <'' @ name @ ''>?'')) w);
             active = (pidfile w0 name \<noteq> None)
         in if active
            then (case stop_endpoint name w0 of
                    (w1, Inl e) \<Rightarrow> (w1, Inl e)
                  | (w1, Inr _) \<Rightarrow> rmtree name w1)
            else rmtree name w0))"

section \<open>Registration\<close>

text \<open>
  The registration record is written with \<^verbatim>\<open>open(.../endpoint.json, 'w+')\<close>, which
  needs the directory (FileNotFoundError otherwise) and empties the file at once, and
  then \<^verbatim>\<open>json.dump\<close>.
\<close>

definition write_endpoint_json :: "string \<Rightarrow> json_file \<Rightarrow> world \<Rightarrow> world" where
  "write_endpoint_json name f w =
     w\<lparr>dirs := update_dir name (\<lambda>d. d\<lparr>endpoint_json := Some f\<rparr>) (dirs w)\<rparr>"

subsection \<open>register_with_hub\<close>

text \<open>
  What \<^verbatim>\<open>requests.post\<close> does with a request: \<^verbatim>\<open>requests.exceptions.ConnectionError\<close>,
  or a response with its status code, its reason and its body as \<^verbatim>\<open>r.json()\<close>
  reads it (\<open>None\<close> when that raises ValueError).
\<close>

datatype http_outcome = Unreachable | Response int string "json option"

definition sites :: "string list" where
  "sites = [''128.135.112.73'', ''140.221.69.24'', ''52.86.208.63'', ''129.114.63.99'',
            ''128.219.134.72'', ''134.79.129.79'']"

text \<open>
  \<open>pick\<close> is the index \<^verbatim>\<open>random.choice\<close> draws; \<open>post\<close> is the hub, a function of
  the URL and the JSON body of the request.
\<close>

definition register_with_hub :: "(string \<Rightarrow> json \<Rightarrow> http_outcome) \<Rightarrow> nat \<Rightarrow>
    string \<Rightarrow> string \<Rightarrow> string \<Rightarrow> string \<Rightarrow> world \<Rightarrow> world \<times> (exn + json)" where
  "register_with_hub post pick endpoint_uuid name address redis_host w =
     (let w0 = emit (Print ''Picking source as a mock site'') w;
          ip_addr = sites ! (pick mod length sites)
      in case post (address @ ''/register'')
                [(''endpoint_id'', endpoint_uuid), (''endpoint_addr'', ip_addr),
                 (''redis_address'', redis_host)] of
           Unreachable \<Rightarrow>
             (emit (Log CRITICAL (''Unable to reach the funcX hub at '' @ address)) w0,
              Inl (SystemExit (- 1)))
         | Response status_code reason body \<Rightarrow>
             (if status_code \<noteq> 200
              then (emit (Print_response status_code) (emit (Print_dir status_code) w0),
                    Inl (RegistrationError reason))
              else (case lookup_dir w0 name of
                      None \<Rightarrow> (w0, Inl FileNotFoundError)
                    | Some _ \<Rightarrow>
                       (case body of
                          None \<Rightarrow> (write_endpoint_json name NotJson w0, Inl ValueError)
                        | Some j \<Rightarrow> (write_endpoint_json name (Json j) w0, Inr j)))))"

subsection \<open>register_endpoint under the retry decorator\<close>

text \<open>
  The body of \<^verbatim>\<open>register_endpoint\<close>. \<open>client\<close> is what
  \<^verbatim>\<open>funcx_client.register_endpoint\<close> does at its successive calls: call number \<open>n\<close>
  raises an exception or returns the registration info.
\<close>

definition register_endpoint_body :: "(nat \<Rightarrow> exn + json) \<Rightarrow> string \<Rightarrow> nat \<Rightarrow> world \<Rightarrow>
    world \<times> (exn + json)" where
  "register_endpoint_body client name n w =
     (case client n of
        Inl e \<Rightarrow> (w, Inl e)
      | Inr reg_info \<Rightarrow>
         (case lookup_dir w name of
            None \<Rightarrow> (w, Inl FileNotFoundError)
          | Some _ \<Rightarrow> (write_endpoint_json name (Json reg_info) w, Inr reg_info)))"

text \<open>
  \<^verbatim>\<open>except Exception\<close> catches every exception of the model but SystemExit and
  KeyboardInterrupt, which derive from BaseException only.
\<close>

definition is_Exception :: "exn \<Rightarrow> bool" where
  "is_Exception e = (case e of SystemExit _ \<Rightarrow> False | KeyboardInterrupt \<Rightarrow> False | _ \<Rightarrow> True)"

text \<open>
  The loop of the decorator \<^verbatim>\<open>retry\<close> (package retry, \<^verbatim>\<open>__retry_internal\<close>), which
  catches \<^verbatim>\<open>exceptions=Exception\<close>:
  \<^verbatim>\<open>
  _tries, _delay = tries, delay
  while _tries:
      try:
          return f()
      except exceptions as e:
          _tries -= 1
          if not _tries:
              raise
          logger.warning('%s, retrying in %s seconds...', e, _delay)
          time.sleep(_delay)
          _delay *= backoff
          _delay += jitter
  \<close>
  \<open>n\<close> counts the calls of \<open>f\<close> made so far and \<open>slept\<close> adds up the sleeps. A loop
  that never ends has no result: the value is \<open>None\<close>. A loop that ends gives the
  world, the time slept and what the decorated function raised or returned (\<open>Inr None\<close>
  when \<open>tries\<close> is 0 and the function is never called).
\<close>

partial_function (option) retry_internal ::
  "(nat \<Rightarrow> world \<Rightarrow> world \<times> (exn + json)) \<Rightarrow> nat \<Rightarrow> nat \<Rightarrow> int \<Rightarrow> nat \<Rightarrow> nat \<Rightarrow> nat \<Rightarrow> world \<Rightarrow>
     (world \<times> nat \<times> (exn + json option)) option" where
  "retry_internal f backoff jitter tries delay n slept w =
     (if tries = 0 then Some (w, slept, Inr None)
      else (case f n w of
              (w1, Inr r) \<Rightarrow> Some (w1, slept, Inr (Some r))
            | (w1, Inl e) \<Rightarrow>
               (if \<not> is_Exception e then Some (w1, slept, Inl e)
                else if tries - 1 = 0 then Some (w1, slept, Inl e)
                else retry_internal f backoff jitter (tries - 1) (delay * backoff + jitter)
                       (Suc n) (slept + delay) (emit (Retry_warning e delay) w1))))"

text \<open>
  \<^verbatim>\<open>@retry(delay=5, logger=...)\<close>: the decorator's defaults stay in place,
  \<^verbatim>\<open>tries=-1\<close>, \<^verbatim>\<open>backoff=1\<close>, \<^verbatim>\<open>jitter=0\<close>, \<^verbatim>\<open>max_delay=None\<close>.
\<close>

definition register_endpoint :: "(nat \<Rightarrow> exn + json) \<Rightarrow> string \<Rightarrow> world \<Rightarrow>
    (world \<times> nat \<times> (exn + json option)) option" where
  "register_endpoint client name w =
     retry_internal (register_endpoint_body client name) 1 0 (- 1) 5 0 0 w"

section \<open>Example worlds\<close>

text \<open>
  One endpoint, \<open>default\<close>, configured as \<^verbatim>\<open>configure\<close> leaves it; then the same
  endpoint with a registration record; with a pidfile whose process is gone; with a
  running daemon that releases its pidfile on SIGTERM and is still there when SIGKILL
  arrives; with a running daemon that SIGKILL reaches before it has reacted; and with a
  running daemon that releases its pidfile on SIGTERM and is gone before SIGKILL is
  sent.
\<close>

definition cfg0 :: config where
  "cfg0 = \<lparr>funcx_service_address = ''https://api.funcx.org/v1'', detach_endpoint = True,
            stdout = ''./interchange.stdout'', stderr = ''./interchange.stderr''\<rparr>"

definition reg0 :: json where
  "reg0 = [(''endpoint_id'', ''0c2a7e1e-5d2b-4b0f-9f5e-3a1d6c8b7a10''),
           (''address'', ''52.86.208.63''), (''client_ports'', ''55001,55002,55003'')]"

definition w_configured :: world where
  "w_configured =
     \<lparr>dirs = [(''default'', \<lparr>config_py = Some cfg0, endpoint_json = None, daemon_pid = None,
                            other_files = []\<rparr>)],
      procs = (\<lambda>_. None), out = []\<rparr>"

definition w_registered :: world where
  "w_registered =
     \<lparr>dirs = [(''default'', \<lparr>config_py = Some cfg0, endpoint_json = Some (Json reg0),
                            daemon_pid = None, other_files = []\<rparr>)],
      procs = (\<lambda>_. None), out = []\<rparr>"

definition w_stale :: world where
  "w_stale =
     \<lparr>dirs = [(''default'', \<lparr>config_py = Some cfg0, endpoint_json = Some (Json reg0),
                            daemon_pid = Some (Some 4242), other_files = []\<rparr>)],
      procs = (\<lambda>_. None), out = []\<rparr>"

definition w_live :: world where
  "w_live =
     \<lparr>dirs = [(''default'', \<lparr>config_py = Some cfg0, endpoint_json = Some (Json reg0),
                            daemon_pid = Some (Some 4242), other_files = []\<rparr>)],
      procs = (\<lambda>_. None)(4242 := Some \<lparr>pname = ''funcx-endpoint'', may_signal = True,
                                         on_term = Releases_and_lingers ''default''\<rparr>),
      out = []\<rparr>"

definition w_busy :: world where
  "w_busy =
     \<lparr>dirs = [(''default'', \<lparr>config_py = Some cfg0, endpoint_json = Some (Json reg0),
                            daemon_pid = Some (Some 4242), other_files = []\<rparr>)],
      procs = (\<lambda>_. None)(4242 := Some \<lparr>pname = ''funcx-endpoint'', may_signal = True,
                                         on_term = Lingers\<rparr>),
      out = []\<rparr>"

definition w_exits :: world where
  "w_exits =
     \<lparr>dirs = [(''default'', \<lparr>config_py = Some cfg0, endpoint_json = Some (Json reg0),
                            daemon_pid = Some (Some 4242), other_files = []\<rparr>)],
      procs = (\<lambda>_. None)(4242 := Some \<lparr>pname = ''funcx-endpoint'', may_signal = True,
                                         on_term = Releases_and_exits ''default''\<rparr>),
      out = []\<rparr>"

definition env0 :: start_env where
  "env0 = \<lparr>uuid4 = ''9b1deb4d-3b7d-4bad-9bdd-2b0d7b3dcb6d'', new_pid = 5151,
            daemon = \<lparr>pname = ''funcx-endpoint'', may_signal = True,
                      on_term = Releases_and_lingers ''default''\<rparr>\<rparr>"

text \<open>
  Three endpoints side by side: one configured and never registered, one registered with
  its daemon running, one registered whose daemon is gone and has left its pidfile.
\<close>

definition w_three :: world where
  "w_three =
     \<lparr>dirs = [(''fresh'', \<lparr>config_py = Some cfg0, endpoint_json = None, daemon_pid = None,
                          other_files = []\<rparr>),
              (''default'', \<lparr>config_py = Some cfg0, endpoint_json = Some (Json reg0),
                            daemon_pid = Some (Some 4242), other_files = []\<rparr>),
              (''crashed'', \<lparr>config_py = Some cfg0,
                            endpoint_json = Some (Json [(''endpoint_id'', ''5e0f7a52-0d5c-4f0a-8a53-6d2f3b1c9e77'')]),
                            daemon_pid = Some (Some 777), other_files = []\<rparr>)],
      procs = (\<lambda>_. None)(4242 := Some \<lparr>pname = ''funcx-endpoint'', may_signal = True,
                                         on_term = Releases_and_lingers ''default''\<rparr>),
      out = []\<rparr>"

text \<open>
  A client whose every call returns the record \<open>reg0\<close>; one whose first call raises
  RegistrationError and whose later calls return \<open>reg0\<close>; one whose every call raises
  ConnectionError; one whose call is interrupted from the keyboard.
\<close>

definition interrupted :: "nat \<Rightarrow> exn + json" where
  "interrupted n = Inl KeyboardInterrupt"

definition hub_accepts :: "nat \<Rightarrow> exn + json" where
  "hub_accepts n = Inr reg0"

fun rejected_once :: "nat \<Rightarrow> exn + json" where
  "rejected_once 0 = Inl (RegistrationError ''Forbidden'')"
| "rejected_once (Suc n) = Inr reg0"

definition hub_unreachable :: "nat \<Rightarrow> exn + json" where
  "hub_unreachable n = Inl ConnectionError"

text \<open>Three mock hubs: one that cannot be reached, one that rejects, one that accepts.\<close>

definition post_down :: "string \<Rightarrow> json \<Rightarrow> http_outcome" where
  "post_down url body = Unreachable"

definition post_forbidden :: "string \<Rightarrow> json \<Rightarrow> http_outcome" where
  "post_forbidden url body = Response 403 ''Forbidden'' None"

definition post_ok :: "string \<Rightarrow> json \<Rightarrow> http_outcome" where
  "post_ok url body = Response 200 ''OK'' (Some reg0)"

section \<open>The status report as the specification words it\<close>

text \<open>
  The row of one discovered endpoint directory, from the words of the specification: the
  status is Initialized if no registration record exists yet, else Active or Inactive as
  the check of that endpoint's pidfile reports; the id is the one read from the record.
\<close>

definition reports_active :: "world \<Rightarrow> string \<Rightarrow> bool" where
  "reports_active w n =
     (case snd (check_pidfile w n default_match_name [] False) of
        Inr r \<Rightarrow> active r = 1
      | Inl _ \<Rightarrow> False)"

definition spec_row :: "world \<Rightarrow> string \<times> endpoint_dir \<Rightarrow> string \<times> string \<times> string option" where
  "spec_row w nd =
     (case nd of (n, d) \<Rightarrow>
        (n,
         (if endpoint_json d = None then ''Initialized''
          else if reports_active w n then ''Active'' else ''Inactive''),
         (case endpoint_json d of
            Some (Json info) \<Rightarrow> map_of info ''endpoint_id''
          | _ \<Rightarrow> None)))"

text \<open>
  A directory \<^verbatim>\<open>list\<close> can report on: its registration record, if any, is a JSON
  object with an \<^verbatim>\<open>endpoint_id\<close>, and its pidfile, if any, holds a pid.
\<close>

definition readable :: "world \<Rightarrow> string \<times> endpoint_dir \<Rightarrow> bool" where
  "readable w nd =
     (case nd of (n, d) \<Rightarrow>
        (case endpoint_json d of
           None \<Rightarrow> True
         | Some NotJson \<Rightarrow> False
         | Some (Json info) \<Rightarrow>
             map_of info ''endpoint_id'' \<noteq> None \<and>
             (case pidfile w n of None \<Rightarrow> True | Some None \<Rightarrow> False | Some (Some pid) \<Rightarrow> 0 \<le> pid)))"

section \<open>How the world changes\<close>

lemma map_of_update_dir:
  "map_of (update_dir name f ds) n = (if n = name then map_option f (map_of ds n) else map_of ds n)"
  by (induction ds) auto

lemma map_fst_update_dir [simp]: "map fst (update_dir name f ds) = map fst ds"
  by (induction ds) auto

lemma lookup_dir_emit [simp]: "lookup_dir (emit e w) n = lookup_dir w n"
  by (simp add: lookup_dir_def emit_def)

lemma pidfile_emit [simp]: "pidfile (emit e w) n = pidfile w n"
  by (simp add: pidfile_def)

lemma procs_emit [simp]: "procs (emit e w) = procs w"
  by (simp add: emit_def)

lemma dirs_emit [simp]: "dirs (emit e w) = dirs w"
  by (simp add: emit_def)

lemma out_emit [simp]: "out (emit e w) = out w @ [e]"
  by (simp add: emit_def)

lemma lookup_dir_remove_pidfile:
  "lookup_dir (remove_pidfile name w) n =
     (if n = name then map_option (\<lambda>d. d\<lparr>daemon_pid := None\<rparr>) (lookup_dir w n) else lookup_dir w n)"
  by (simp add: lookup_dir_def remove_pidfile_def map_of_update_dir)

lemma pidfile_remove_pidfile:
  "pidfile (remove_pidfile name w) n = (if n = name then None else pidfile w n)"
  by (auto simp: pidfile_def lookup_dir_remove_pidfile split: option.splits)

lemma procs_remove_pidfile [simp]: "procs (remove_pidfile name w) = procs w"
  by (simp add: remove_pidfile_def)

lemma out_remove_pidfile [simp]: "out (remove_pidfile name w) = out w"
  by (simp add: remove_pidfile_def)

lemma lookup_dir_end_process [simp]: "lookup_dir (end_process pid w) n = lookup_dir w n"
  by (simp add: lookup_dir_def end_process_def)

lemma pidfile_end_process [simp]: "pidfile (end_process pid w) n = pidfile w n"
  by (simp add: pidfile_def)

lemma procs_end_process [simp]: "procs (end_process pid w) = (procs w)(pid := None)"
  by (simp add: end_process_def)

lemma out_end_process [simp]: "out (end_process pid w) = out w"
  by (simp add: end_process_def)

lemma dirs_end_process [simp]: "dirs (end_process pid w) = dirs w"
  by (simp add: end_process_def)

lemma check_pidfile_absent:
  "pidfile w dir = None \<Longrightarrow> check_pidfile w dir m e lg = (w, Inr \<lparr>exists = 0, active = 0\<rparr>)"
  by (simp add: check_pidfile_def)

lemma check_pidfile_present:
  "pidfile w dir = Some (Some pid) \<Longrightarrow> 0 \<le> pid \<Longrightarrow>
   snd (check_pidfile w dir m e lg) =
     Inr \<lparr>exists = 1, active = (if (\<exists>p. procs w pid = Some p \<and> pname p = m) then 1 else 0)\<rparr>"
  by (auto simp: check_pidfile_def psutil_name_def Let_def split: option.splits)

lemma check_pidfile_world:
  "dirs (fst (check_pidfile w dir m e lg)) = dirs w \<and> procs (fst (check_pidfile w dir m e lg)) = procs w"
  by (auto simp: check_pidfile_def psutil_name_def Let_def split: option.splits sum.splits exn.splits)

lemma check_pidfile_invariant:
  "snd (check_pidfile w dir m e lg) = Inr r \<Longrightarrow>
   (exists r = 0 \<longrightarrow> active r = 0) \<and> (active r = 1 \<longrightarrow> exists r = 1)"
  by (auto simp: check_pidfile_def psutil_name_def Let_def
      split: option.splits if_splits sum.splits exn.splits)

section \<open>The pidfile record\<close>

text \<open>
  Claim C3. \<^verbatim>\<open>check_pidfile\<close> returns \<open>{exists: 0, active: 0}\<close> when there is no pidfile.
  When the pidfile holds a pid, it returns \<open>{exists: 1, active: 1}\<close> exactly when a live
  process has that pid and its name is the expected name, and \<open>{exists: 1, active: 0}\<close>
  otherwise. Every record it returns satisfies: \<open>exists = 0\<close> implies \<open>active = 0\<close>, and
  \<open>active = 1\<close> implies \<open>exists = 1\<close>. This holds for every expected name and with or
  without logging.
\<close>

theorem check_pidfile_record:
  "(pidfile w dir = None \<longrightarrow>
      snd (check_pidfile w dir match_name endpoint_name log) = Inr \<lparr>exists = 0, active = 0\<rparr>) \<and>
   (pidfile w dir = Some (Some pid) \<and> 0 \<le> pid \<longrightarrow>
      snd (check_pidfile w dir match_name endpoint_name log) =
        (if (\<exists>p. procs w pid = Some p \<and> pname p = match_name)
         then Inr \<lparr>exists = 1, active = 1\<rparr> else Inr \<lparr>exists = 1, active = 0\<rparr>)) \<and>
   (\<forall>r. snd (check_pidfile w dir match_name endpoint_name log) = Inr r \<longrightarrow>
      (exists r = 0 \<longrightarrow> active r = 0) \<and> (active r = 1 \<longrightarrow> exists r = 1))"
proof (intro conjI impI allI)
  assume "pidfile w dir = None"
  then show "snd (check_pidfile w dir match_name endpoint_name log) = Inr \<lparr>exists = 0, active = 0\<rparr>"
    by (simp add: check_pidfile_absent)
next
  assume "pidfile w dir = Some (Some pid) \<and> 0 \<le> pid"
  then show "snd (check_pidfile w dir match_name endpoint_name log) =
        (if (\<exists>p. procs w pid = Some p \<and> pname p = match_name)
         then Inr \<lparr>exists = 1, active = 1\<rparr> else Inr \<lparr>exists = 1, active = 0\<rparr>)"
    using check_pidfile_present [of w dir pid match_name endpoint_name log] by auto
next
  fix r
  assume r: "snd (check_pidfile w dir match_name endpoint_name log) = Inr r"
  { assume "exists r = 0"
    with r show "active r = 0" using check_pidfile_invariant by blast }
  { assume "active r = 1"
    with r show "exists r = 1" using check_pidfile_invariant by blast }
qed

theorem check_pidfile_record_witness:
  "snd (check_pidfile w_configured ''default'' default_match_name [] False) =
     Inr \<lparr>exists = 0, active = 0\<rparr> \<and>
   snd (check_pidfile w_live ''default'' default_match_name [] False) =
     Inr \<lparr>exists = 1, active = 1\<rparr> \<and>
   snd (check_pidfile w_stale ''default'' default_match_name [] False) =
     Inr \<lparr>exists = 1, active = 0\<rparr> \<and>
   snd (check_pidfile w_live ''default'' ''python'' [] False) =
     Inr \<lparr>exists = 1, active = 0\<rparr>"
proof -
  have a: "pidfile w_configured ''default'' = None"
    by (simp add: pidfile_def lookup_dir_def w_configured_def)
  have b: "pidfile w_live ''default'' = Some (Some 4242) \<and> (0::int) \<le> 4242"
    by (simp add: pidfile_def lookup_dir_def w_live_def)
  have c: "pidfile w_stale ''default'' = Some (Some 4242) \<and> (0::int) \<le> 4242"
    by (simp add: pidfile_def lookup_dir_def w_stale_def)
  have pl: "\<exists>p. procs w_live 4242 = Some p \<and> pname p = default_match_name"
    by (simp add: w_live_def default_match_name_def)
  have pp: "\<not> (\<exists>p. procs w_live 4242 = Some p \<and> pname p = ''python'')"
    by (simp add: w_live_def)
  have ps: "\<not> (\<exists>p. procs w_stale 4242 = Some p \<and> pname p = default_match_name)"
    by (simp add: w_stale_def)
  have 1: "snd (check_pidfile w_configured ''default'' default_match_name [] False) =
     Inr \<lparr>exists = 0, active = 0\<rparr>"
    using check_pidfile_record [of w_configured "''default''" default_match_name "[]" False 0,
        THEN conjunct1, THEN mp, OF a] .
  have 2: "snd (check_pidfile w_live ''default'' default_match_name [] False) =
     Inr \<lparr>exists = 1, active = 1\<rparr>"
    using check_pidfile_record [of w_live "''default''" default_match_name "[]" False 4242,
        THEN conjunct2, THEN conjunct1, THEN mp, OF b]
    by (simp only: pl if_True)
  have 3: "snd (check_pidfile w_stale ''default'' default_match_name [] False) =
     Inr \<lparr>exists = 1, active = 0\<rparr>"
    using check_pidfile_record [of w_stale "''default''" default_match_name "[]" False 4242,
        THEN conjunct2, THEN conjunct1, THEN mp, OF c]
    by (simp only: ps if_False)
  have 4: "snd (check_pidfile w_live ''default'' ''python'' [] False) =
     Inr \<lparr>exists = 1, active = 0\<rparr>"
    using check_pidfile_record [of w_live "''default''" "''python''" "[]" False 4242,
        THEN conjunct2, THEN conjunct1, THEN mp, OF b]
    by (simp only: pp if_False)
  from 1 2 3 4 show ?thesis by blast
qed

section \<open>Stopping\<close>

lemma os_kill_raises: "snd (os_kill w pid sig) = Inl e \<Longrightarrow> e = OSError \<or> e = OverflowError"
  by (auto simp: os_kill_def split: option.splits if_splits signal.splits term_reaction.splits)

text \<open>A pid beyond \<^verbatim>\<open>pid_t\<close>: the OverflowError is not handled and leaves the pidfile.\<close>

lemma stop_pid_overflow:
  assumes "pidfile w name = Some (Some pid)" and "2147483647 < pid"
  shows "stop_endpoint name w = (w, Inl OverflowError)"
  using assms by (simp add: stop_endpoint_def os_kill_def stop_cleanup_def)

lemma stop_cleanup_OSError:
  "exit_status (snd (stop_cleanup name w OSError) :: exn + unit) \<noteq> 0 \<and>
   pidfile (fst (stop_cleanup name w OSError)) name = None \<and>
   out (fst (stop_cleanup name w OSError)) =
     out w @ [Log WARNING (''Endpoint '' @ name @ '' could not be terminated''),
              Log WARNING (''Attempting Endpoint '' @ name @ '' cleanup'')] \<and>
   procs (fst (stop_cleanup name w OSError)) = procs w"
  by (simp add: stop_cleanup_def Let_def exit_status_def pidfile_remove_pidfile)

lemma stop_cleanup_exit:
  "pidfile w name \<noteq> None \<Longrightarrow> snd (stop_cleanup name w OSError) = Inl (SystemExit (- 1))"
  by (simp add: stop_cleanup_def Let_def)

lemma stop_first_signal_fails:
  assumes "pidfile w name = Some (Some pid)" and "snd (os_kill w pid SIGTERM) = Inl OSError"
  shows "stop_endpoint name w = stop_cleanup name w OSError"
proof -
  from assms(2) have "os_kill w pid SIGTERM = (w, Inl OSError)"
    by (auto simp: os_kill_def split: option.splits if_splits term_reaction.splits)
  with assms(1) show ?thesis by (simp add: stop_endpoint_def)
qed

lemma stop_second_signal_fails:
  assumes "pidfile w name = Some (Some pid)" and "snd (os_kill w pid SIGTERM) = Inr ()"
    and "snd (os_kill (fst (os_kill w pid SIGTERM)) pid SIGKILL) = Inl OSError"
  shows "stop_endpoint name w = stop_cleanup name (fst (os_kill w pid SIGTERM)) OSError \<and>
         out (fst (os_kill w pid SIGTERM)) = out w"
proof -
  obtain w1 where w1: "os_kill w pid SIGTERM = (w1, Inr ())"
    using assms(2) by (cases "os_kill w pid SIGTERM") auto
  from assms(3) w1 have "os_kill w1 pid SIGKILL = (w1, Inl OSError)"
    by (auto simp: os_kill_def split: option.splits if_splits)
  moreover from w1 have "out w1 = out w"
    by (auto simp: os_kill_def split: option.splits if_splits term_reaction.splits)
  ultimately show ?thesis using assms(1) w1 by (simp add: stop_endpoint_def)
qed

text \<open>
  Claim C6. When the pidfile holds a pid and signalling that pid fails (\<^verbatim>\<open>os.kill\<close>
  raises OSError, at SIGTERM or at SIGKILL), \<^verbatim>\<open>stop\<close> logs its warnings, leaves no
  pidfile behind and ends the command with a non-zero exit status. When it is the first
  signal that fails, the pidfile is there to be removed and the status is that of
  \<^verbatim>\<open>sys.exit(-1)\<close>.
\<close>

theorem stop_signal_failure:
  assumes "pidfile w name = Some (Some pid)" and "0 < pid"
    and "snd (os_kill w pid SIGTERM) = Inl OSError \<or>
         (snd (os_kill w pid SIGTERM) = Inr () \<and>
          snd (os_kill (fst (os_kill w pid SIGTERM)) pid SIGKILL) = Inl OSError)"
  shows "exit_status (snd (stop_endpoint name w)) \<noteq> 0 \<and>
         pidfile (fst (stop_endpoint name w)) name = None \<and>
         out (fst (stop_endpoint name w)) =
           out w @ [Log WARNING (''Endpoint '' @ name @ '' could not be terminated''),
                    Log WARNING (''Attempting Endpoint '' @ name @ '' cleanup'')] \<and>
         (snd (os_kill w pid SIGTERM) = Inl OSError \<longrightarrow>
            snd (stop_endpoint name w) = Inl (SystemExit (- 1)))"
proof (cases "snd (os_kill w pid SIGTERM) = Inl OSError")
  case True
  with assms(1) have eq: "stop_endpoint name w = stop_cleanup name w OSError"
    by (rule stop_first_signal_fails)
  from assms(1) have "pidfile w name \<noteq> None" by simp
  then have "snd (stop_cleanup name w OSError) = Inl (SystemExit (- 1))"
    by (rule stop_cleanup_exit)
  with eq stop_cleanup_OSError [of name w] show ?thesis by simp
next
  case False
  with assms(3) have t: "snd (os_kill w pid SIGTERM) = Inr ()"
    and k: "snd (os_kill (fst (os_kill w pid SIGTERM)) pid SIGKILL) = Inl OSError"
    by auto
  from stop_second_signal_fails [OF assms(1) t k]
  have eq: "stop_endpoint name w = stop_cleanup name (fst (os_kill w pid SIGTERM)) OSError"
    and o: "out (fst (os_kill w pid SIGTERM)) = out w"
    by auto
  from eq o stop_cleanup_OSError [of name "fst (os_kill w pid SIGTERM)"] False
  show ?thesis by simp
qed

lemma w_stale_pidfile: "pidfile w_stale ''default'' = Some (Some 4242)"
  by (simp add: pidfile_def lookup_dir_def w_stale_def)

lemma w_stale_kill: "os_kill w_stale 4242 sig = (w_stale, Inl OSError)"
  by (simp add: os_kill_def w_stale_def)

theorem stop_signal_failure_witness:
  "exit_status (snd (stop_endpoint ''default'' w_stale)) \<noteq> 0 \<and>
   pidfile (fst (stop_endpoint ''default'' w_stale)) ''default'' = None \<and>
   out (fst (stop_endpoint ''default'' w_stale)) =
     [Log WARNING ''Endpoint default could not be terminated'',
      Log WARNING ''Attempting Endpoint default cleanup''] \<and>
   snd (stop_endpoint ''default'' w_stale) = Inl (SystemExit (- 1)) \<and>
   snd (stop_endpoint ''default'' w_exits) = Inl FileNotFoundError \<and>
   exit_status (snd (stop_endpoint ''default'' w_exits)) \<noteq> 0 \<and>
   pidfile (fst (stop_endpoint ''default'' w_exits)) ''default'' = None"
proof -
  have k: "snd (os_kill w_stale 4242 SIGTERM) = Inl OSError \<or>
         (snd (os_kill w_stale 4242 SIGTERM) = Inr () \<and>
          snd (os_kill (fst (os_kill w_stale 4242 SIGTERM)) 4242 SIGKILL) = Inl OSError)"
    by (simp add: w_stale_kill)
  have o: "out w_stale = []" by (simp add: w_stale_def)
  have p: "0 < (4242::int)" by simp
  from stop_signal_failure [OF w_stale_pidfile p k]
  have 1: "exit_status (snd (stop_endpoint ''default'' w_stale)) \<noteq> 0 \<and>
      pidfile (fst (stop_endpoint ''default'' w_stale)) ''default'' = None \<and>
      out (fst (stop_endpoint ''default'' w_stale)) =
        [Log WARNING ''Endpoint default could not be terminated'',
         Log WARNING ''Attempting Endpoint default cleanup''] \<and>
      snd (stop_endpoint ''default'' w_stale) = Inl (SystemExit (- 1))"
    by (simp add: w_stale_kill o exit_status_def)
  have f: "pidfile w_exits ''default'' = Some (Some 4242)"
    by (simp add: pidfile_def lookup_dir_def w_exits_def)
  have g: "procs w_exits 4242 = Some \<lparr>pname = ''funcx-endpoint'', may_signal = True,
      on_term = Releases_and_exits ''default''\<rparr>"
    by (simp add: w_exits_def)
  have t: "os_kill w_exits 4242 SIGTERM =
      (remove_pidfile ''default'' (end_process 4242 w_exits), Inr ())"
    by (simp add: os_kill_def g)
  have k2: "snd (os_kill w_exits 4242 SIGTERM) = Inl OSError \<or>
         (snd (os_kill w_exits 4242 SIGTERM) = Inr () \<and>
          snd (os_kill (fst (os_kill w_exits 4242 SIGTERM)) 4242 SIGKILL) = Inl OSError)"
    by (simp add: t) (simp add: os_kill_def)
  have e: "snd (stop_endpoint ''default'' w_exits) = Inl FileNotFoundError"
    by (simp add: stop_endpoint_def f t) (simp add: os_kill_def stop_cleanup_def Let_def
        pidfile_remove_pidfile)
  from stop_signal_failure [OF f p k2] e
  have 2: "snd (stop_endpoint ''default'' w_exits) = Inl FileNotFoundError \<and>
      exit_status (snd (stop_endpoint ''default'' w_exits)) \<noteq> 0 \<and>
      pidfile (fst (stop_endpoint ''default'' w_exits)) ''default'' = None"
    by blast
  from 1 2 show ?thesis by blast
qed

text \<open>
  Claim C7. With no \<^verbatim>\<open>daemon.pid\<close> in the endpoint's directory (or no directory),
  \<^verbatim>\<open>stop\<close> reports the endpoint as not active and returns without an error; the
  directories and the processes are as before; a second \<^verbatim>\<open>stop\<close> right after does the
  same and reports the same.
\<close>

theorem stop_without_pidfile:
  assumes "pidfile w name = None"
  shows "stop_endpoint name w =
           (emit (Log INFO (''Endpoint <'' @ name @ ''> is not active.'')) w, Inr ()) \<and>
         dirs (fst (stop_endpoint name w)) = dirs w \<and>
         procs (fst (stop_endpoint name w)) = procs w \<and>
         stop_endpoint name (fst (stop_endpoint name w)) =
           (emit (Log INFO (''Endpoint <'' @ name @ ''> is not active.''))
              (emit (Log INFO (''Endpoint <'' @ name @ ''> is not active.'')) w), Inr ())"
  using assms by (simp add: stop_endpoint_def)

lemma w_configured_pidfile: "pidfile w_configured n = None"
  by (simp add: pidfile_def lookup_dir_def w_configured_def)

theorem stop_without_pidfile_witness:
  "snd (stop_endpoint ''default'' w_configured) = Inr () \<and>
   out (fst (stop_endpoint ''default'' w_configured)) =
     [Log INFO ''Endpoint <default> is not active.''] \<and>
   dirs (fst (stop_endpoint ''default'' w_configured)) = dirs w_configured \<and>
   snd (stop_endpoint ''default'' (fst (stop_endpoint ''default'' w_configured))) = Inr () \<and>
   out (fst (stop_endpoint ''default'' (fst (stop_endpoint ''default'' w_configured)))) =
     [Log INFO ''Endpoint <default> is not active.'', Log INFO ''Endpoint <default> is not active.'']"
proof -
  have o: "out w_configured = []" by (simp add: w_configured_def)
  note t = stop_without_pidfile [OF w_configured_pidfile, of "''default''"]
  from t have 1: "stop_endpoint ''default'' w_configured =
      (emit (Log INFO (''Endpoint <'' @ ''default'' @ ''> is not active.'')) w_configured, Inr ())"
    by (rule conjunct1)
  from t [THEN conjunct2, THEN conjunct2, THEN conjunct2]
  have 2: "stop_endpoint ''default'' (fst (stop_endpoint ''default'' w_configured)) =
      (emit (Log INFO (''Endpoint <'' @ ''default'' @ ''> is not active.''))
         (emit (Log INFO (''Endpoint <'' @ ''default'' @ ''> is not active.'')) w_configured), Inr ())"
    .
  show ?thesis unfolding 2 unfolding 1 by (simp add: o)
qed

section \<open>Starting\<close>

lemma lookup_dir_open_streams:
  "lookup_dir (open_streams name cfg w) n =
     (if n = name
      then map_option (\<lambda>d. d\<lparr>other_files :=
             List.insert (stderr cfg) (List.insert (stdout cfg) (other_files d))\<rparr>) (lookup_dir w n)
      else lookup_dir w n)"
  by (simp add: lookup_dir_def open_streams_def map_of_update_dir)

lemma pidfile_open_streams [simp]: "pidfile (open_streams name cfg w) n = pidfile w n"
  by (auto simp: pidfile_def lookup_dir_open_streams split: option.splits)

lemma procs_open_streams [simp]: "procs (open_streams name cfg w) = procs w"
  by (simp add: open_streams_def)

lemma lookup_dir_enter_daemon:
  "lookup_dir (enter_daemon name env w) n =
     (if n = name then map_option (\<lambda>d. d\<lparr>daemon_pid := Some (Some (new_pid env))\<rparr>) (lookup_dir w n)
      else lookup_dir w n)"
  by (simp add: lookup_dir_def enter_daemon_def map_of_update_dir)

lemma pidfile_enter_daemon:
  "lookup_dir w name \<noteq> None \<Longrightarrow> pidfile (enter_daemon name env w) name = Some (Some (new_pid env))"
  by (auto simp: pidfile_def lookup_dir_enter_daemon)

lemma procs_enter_daemon [simp]:
  "procs (enter_daemon name env w) = (procs w)(new_pid env := Some (daemon env))"
  by (simp add: enter_daemon_def)

text \<open>With no pidfile, a configured endpoint enters the daemon context.\<close>

lemma start_enters_daemon:
  assumes "lookup_dir w name = Some d" and "config_py d = Some cfg"
    and "determine_uuid d endpoint_uuid (uuid4 env) = Inr u" and "pidfile w name = None"
  shows "start_endpoint name endpoint_uuid env w =
           (enter_daemon name env
              (if detach_endpoint cfg
               then open_streams name cfg
                      (emit (Log INFO (''Starting endpoint with uuid: '' @ py_str u)) w)
               else emit (Log INFO (''Starting endpoint with uuid: '' @ py_str u)) w),
            Inr (Daemon u))"
  using assms by (simp add: start_endpoint_def Let_def check_pidfile_absent)

lemma start_daemon_is_active:
  assumes "lookup_dir w name = Some d" and "config_py d = Some cfg"
    and "determine_uuid d endpoint_uuid (uuid4 env) = Inr u" and "pidfile w name = None"
    and "pname (daemon env) = match_name" and "0 \<le> new_pid env"
  shows "pidfile (fst (start_endpoint name endpoint_uuid env w)) name = Some (Some (new_pid env)) \<and>
         snd (check_pidfile (fst (start_endpoint name endpoint_uuid env w)) name match_name e lg) =
           Inr \<lparr>exists = 1, active = 1\<rparr>"
proof -
  let ?w' = "fst (start_endpoint name endpoint_uuid env w)"
  have p: "pidfile ?w' name = Some (Some (new_pid env))"
    using assms(1) by (simp add: start_enters_daemon [OF assms(1-4)] pidfile_enter_daemon
        lookup_dir_open_streams)
  have q: "procs ?w' (new_pid env) = Some (daemon env)"
    by (simp add: start_enters_daemon [OF assms(1-4)])
  from check_pidfile_present [OF p assms(6), of match_name e lg] q assms(5)
  show ?thesis using p by simp
qed

text \<open>With a pidfile, live or stale, it returns at the check and starts nothing.\<close>

lemma start_refused:
  assumes "lookup_dir w name = Some d" and "config_py d = Some cfg"
    and "determine_uuid d endpoint_uuid (uuid4 env) = Inr u"
    and "pidfile w name = Some (Some pid)" and "0 \<le> pid"
  shows "snd (start_endpoint name endpoint_uuid env w) = Inr Refused \<and>
         dirs (fst (start_endpoint name endpoint_uuid env w)) = dirs w \<and>
         procs (fst (start_endpoint name endpoint_uuid env w)) = procs w"
  using assms
  by (auto simp: start_endpoint_def Let_def check_pidfile_def psutil_name_def
      split: option.splits)

lemma start_stale_hint:
  assumes "lookup_dir w name = Some d" and "config_py d = Some cfg"
    and "determine_uuid d endpoint_uuid (uuid4 env) = Inr u"
    and "pidfile w name = Some (Some pid)" and "0 \<le> pid"
    and "\<not> (\<exists>p. procs w pid = Some p \<and> pname p = default_match_name)"
  shows "out (fst (start_endpoint name endpoint_uuid env w)) =
           out w @ [Log INFO (''Starting endpoint with uuid: '' @ py_str u),
                    Log INFO ''A prior Endpoint instance appears to have been terminated without proper cleanup'',
                    Log INFO (cleanup_hint name)]"
  using assms
  by (auto simp: start_endpoint_def Let_def check_pidfile_def psutil_name_def
      split: option.splits)

text \<open>
  Claim C1, as stated, fails: the endpoint \<open>default\<close> is configured, its pidfile holds
  4242 and no process has that pid, so the check reports the record not active; yet
  \<^verbatim>\<open>start\<close> returns at the check, and no daemon is started.
\<close>

theorem start_stale_pidfile_counterexample:
  "pidfile w_stale ''default'' = Some (Some 4242) \<and>
   procs w_stale 4242 = None \<and>
   snd (check_pidfile w_stale ''default'' default_match_name ''default'' True) =
     Inr \<lparr>exists = 1, active = 0\<rparr> \<and>
   snd (start_endpoint ''default'' PyNone env0 w_stale) = Inr Refused \<and>
   procs (fst (start_endpoint ''default'' PyNone env0 w_stale)) = procs w_stale"
proof -
  have l: "lookup_dir w_stale ''default'' =
      Some \<lparr>config_py = Some cfg0, endpoint_json = Some (Json reg0),
            daemon_pid = Some (Some 4242), other_files = []\<rparr>"
    by (simp add: lookup_dir_def w_stale_def)
  have u: "determine_uuid \<lparr>config_py = Some cfg0, endpoint_json = Some (Json reg0),
            daemon_pid = Some (Some 4242), other_files = []\<rparr> PyNone (uuid4 env0) =
          Inr (PyStr ''0c2a7e1e-5d2b-4b0f-9f5e-3a1d6c8b7a10'')"
    by (simp add: determine_uuid_def reg0_def)
  have p: "procs w_stale 4242 = None" by (simp add: w_stale_def)
  have z: "(0::int) \<le> 4242" by simp
  have c: "snd (check_pidfile w_stale ''default'' default_match_name ''default'' True) =
     Inr \<lparr>exists = 1, active = 0\<rparr>"
    using check_pidfile_present [OF w_stale_pidfile z, of default_match_name "''default''" True]
    by (simp add: p)
  from start_refused [OF l _ u w_stale_pidfile z, of cfg0] c p w_stale_pidfile
  show ?thesis by simp
qed

text \<open>
  Claim C1, amended. On an endpoint whose directory and configuration exist,
  \<^verbatim>\<open>start\<close> goes on to the daemon context when there is no pidfile. When the pidfile
  exists it returns without starting anything, whether the check reports the record
  active or not. A stale pidfile is reported as not active, and \<^verbatim>\<open>start\<close> logs how to
  clean it up (with \<^verbatim>\<open>stop\<close>) before it returns.
\<close>

theorem start_refuses_when_pidfile_exists:
  assumes "lookup_dir w name = Some d" and "config_py d = Some cfg"
    and "determine_uuid d endpoint_uuid (uuid4 env) = Inr u"
  shows "(pidfile w name = None \<longrightarrow>
            snd (start_endpoint name endpoint_uuid env w) = Inr (Daemon u)) \<and>
         (\<forall>pid. pidfile w name = Some (Some pid) \<and> 0 \<le> pid \<longrightarrow>
            snd (start_endpoint name endpoint_uuid env w) = Inr Refused \<and>
            dirs (fst (start_endpoint name endpoint_uuid env w)) = dirs w \<and>
            procs (fst (start_endpoint name endpoint_uuid env w)) = procs w) \<and>
         (\<forall>pid. pidfile w name = Some (Some pid) \<and> 0 \<le> pid \<and>
                \<not> (\<exists>p. procs w pid = Some p \<and> pname p = default_match_name) \<longrightarrow>
            snd (check_pidfile w name default_match_name name True) =
              Inr \<lparr>exists = 1, active = 0\<rparr> \<and>
            Log INFO (cleanup_hint name) \<in> set (out (fst (start_endpoint name endpoint_uuid env w))))"
proof (intro conjI allI impI)
  assume "pidfile w name = None"
  with assms show "snd (start_endpoint name endpoint_uuid env w) = Inr (Daemon u)"
    by (simp add: start_enters_daemon)
next
  fix pid assume "pidfile w name = Some (Some pid) \<and> 0 \<le> pid"
  then have p: "pidfile w name = Some (Some pid)" and z: "0 \<le> pid" by auto
  from start_refused [OF assms p z]
  show "snd (start_endpoint name endpoint_uuid env w) = Inr Refused"
    and "dirs (fst (start_endpoint name endpoint_uuid env w)) = dirs w"
    and "procs (fst (start_endpoint name endpoint_uuid env w)) = procs w"
    by auto
next
  fix pid
  assume a: "pidfile w name = Some (Some pid) \<and> 0 \<le> pid \<and>
      \<not> (\<exists>p. procs w pid = Some p \<and> pname p = default_match_name)"
  then have p: "pidfile w name = Some (Some pid)" and z: "0 \<le> pid"
    and n: "\<not> (\<exists>p. procs w pid = Some p \<and> pname p = default_match_name)"
    by auto
  from check_pidfile_present [OF p z, of default_match_name name True] n
  show "snd (check_pidfile w name default_match_name name True) = Inr \<lparr>exists = 1, active = 0\<rparr>"
    by simp
  from start_stale_hint [OF assms p z n]
  show "Log INFO (cleanup_hint name) \<in> set (out (fst (start_endpoint name endpoint_uuid env w)))"
    by simp
qed

lemma w_configured_lookup:
  "lookup_dir w_configured ''default'' =
     Some \<lparr>config_py = Some cfg0, endpoint_json = None, daemon_pid = None, other_files = []\<rparr>"
  by (simp add: lookup_dir_def w_configured_def)

lemma w_registered_lookup:
  "lookup_dir w_registered ''default'' =
     Some \<lparr>config_py = Some cfg0, endpoint_json = Some (Json reg0), daemon_pid = None,
           other_files = []\<rparr>"
  by (simp add: lookup_dir_def w_registered_def)

lemma w_registered_pidfile: "pidfile w_registered n = None"
  by (simp add: pidfile_def lookup_dir_def w_registered_def)

lemma w_live_lookup:
  "lookup_dir w_live ''default'' =
     Some \<lparr>config_py = Some cfg0, endpoint_json = Some (Json reg0),
           daemon_pid = Some (Some 4242), other_files = []\<rparr>"
  by (simp add: lookup_dir_def w_live_def)

lemma w_live_pidfile: "pidfile w_live ''default'' = Some (Some 4242)"
  by (simp add: pidfile_def w_live_lookup)

lemma reg0_identity:
  "determine_uuid \<lparr>config_py = c, endpoint_json = Some (Json reg0), daemon_pid = p,
      other_files = fs\<rparr> endpoint_uuid fresh = Inr (PyStr ''0c2a7e1e-5d2b-4b0f-9f5e-3a1d6c8b7a10'')"
  by (simp add: determine_uuid_def reg0_def)

theorem start_refuses_when_pidfile_exists_witness:
  "snd (start_endpoint ''default'' PyNone env0 w_registered) =
     Inr (Daemon (PyStr ''0c2a7e1e-5d2b-4b0f-9f5e-3a1d6c8b7a10'')) \<and>
   snd (start_endpoint ''default'' PyNone env0 w_live) = Inr Refused \<and>
   procs (fst (start_endpoint ''default'' PyNone env0 w_live)) = procs w_live \<and>
   snd (start_endpoint ''default'' PyNone env0 w_stale) = Inr Refused \<and>
   Log INFO (cleanup_hint ''default'') \<in>
     set (out (fst (start_endpoint ''default'' PyNone env0 w_stale)))"
proof -
  have z: "pidfile w_live ''default'' = Some (Some 4242) \<and> (0::int) \<le> 4242"
    by (simp add: w_live_pidfile)
  note a = start_refuses_when_pidfile_exists [OF w_registered_lookup _ reg0_identity,
      of cfg0 PyNone env0]
  note b = start_refuses_when_pidfile_exists [OF w_live_lookup _ reg0_identity,
      of cfg0 PyNone env0]
  from a have 1: "snd (start_endpoint ''default'' PyNone env0 w_registered) =
     Inr (Daemon (PyStr ''0c2a7e1e-5d2b-4b0f-9f5e-3a1d6c8b7a10''))"
    by (simp add: w_registered_pidfile)
  from b z have 2: "snd (start_endpoint ''default'' PyNone env0 w_live) = Inr Refused \<and>
      procs (fst (start_endpoint ''default'' PyNone env0 w_live)) = procs w_live"
    by simp
  have l: "lookup_dir w_stale ''default'' =
      Some \<lparr>config_py = Some cfg0, endpoint_json = Some (Json reg0),
            daemon_pid = Some (Some 4242), other_files = []\<rparr>"
    by (simp add: lookup_dir_def w_stale_def)
  have n: "\<not> (\<exists>p. procs w_stale 4242 = Some p \<and> pname p = default_match_name)"
    by (simp add: w_stale_def)
  have s: "pidfile w_stale ''default'' = Some (Some 4242) \<and> (0::int) \<le> 4242 \<and>
      \<not> (\<exists>p. procs w_stale 4242 = Some p \<and> pname p = default_match_name)"
    using w_stale_pidfile n by simp
  have cp: "config_py \<lparr>config_py = Some cfg0, endpoint_json = Some (Json reg0),
            daemon_pid = Some (Some 4242), other_files = []\<rparr> = Some cfg0"
    by simp
  note c = start_refuses_when_pidfile_exists [OF l cp reg0_identity, of PyNone env0]
  from c s have 3: "snd (start_endpoint ''default'' PyNone env0 w_stale) = Inr Refused \<and>
      Log INFO (cleanup_hint ''default'') \<in>
        set (out (fst (start_endpoint ''default'' PyNone env0 w_stale)))"
    by blast
  from 1 2 3 show ?thesis by simp
qed

subsection \<open>The identity of the endpoint\<close>

lemma lookup_dir_write_endpoint_json:
  "lookup_dir (write_endpoint_json name f w) n =
     (if n = name then map_option (\<lambda>d. d\<lparr>endpoint_json := Some f\<rparr>) (lookup_dir w n)
      else lookup_dir w n)"
  by (simp add: lookup_dir_def write_endpoint_json_def map_of_update_dir)

lemma procs_write_endpoint_json [simp]: "procs (write_endpoint_json name f w) = procs w"
  by (simp add: write_endpoint_json_def)

lemma out_write_endpoint_json [simp]: "out (write_endpoint_json name f w) = out w"
  by (simp add: write_endpoint_json_def)

lemma pidfile_write_endpoint_json [simp]: "pidfile (write_endpoint_json name f w) n = pidfile w n"
  by (auto simp: pidfile_def lookup_dir_write_endpoint_json split: option.splits)

text \<open>A start that finds a registration record and no pidfile runs under the record's id.\<close>

lemma start_uses_record:
  assumes "lookup_dir w name = Some d" and "config_py d = Some cfg"
    and "endpoint_json d = Some (Json reg)" and "map_of reg ''endpoint_id'' = Some i"
    and "daemon_pid d = None"
  shows "snd (start_endpoint name endpoint_uuid env w) = Inr (Daemon (PyStr i))"
proof -
  from assms(3,4) have u: "determine_uuid d endpoint_uuid (uuid4 env) = Inr (PyStr i)"
    by (simp add: determine_uuid_def)
  from assms(1,5) have p: "pidfile w name = None" by (simp add: pidfile_def)
  from start_enters_daemon [OF assms(1,2) u p] show ?thesis by simp
qed

lemma start_keeps_record:
  assumes "lookup_dir w name = Some d" and "config_py d = Some cfg"
    and "determine_uuid d endpoint_uuid (uuid4 env) = Inr u" and "pidfile w name = None"
  shows "\<exists>d'. lookup_dir (fst (start_endpoint name endpoint_uuid env w)) name = Some d' \<and>
           config_py d' = Some cfg \<and> endpoint_json d' = endpoint_json d"
  using assms(1,2)
  by (auto simp: start_enters_daemon [OF assms] lookup_dir_enter_daemon lookup_dir_open_streams)

lemma register_body_persists:
  assumes "lookup_dir w name = Some d" and "client n = Inr reg"
  shows "register_endpoint_body client name n w = (write_endpoint_json name (Json reg) w, Inr reg)"
  using assms by (simp add: register_endpoint_body_def)

text \<open>
  The precedence of lines 297 to 304, for the values the command line passes. A start
  that goes on to the daemon context (the configuration exists, there is no pidfile)
  runs under the \<^verbatim>\<open>endpoint_id\<close> of the registration record when the directory holds
  one, whatever the caller passes; without a record it runs under the UUID the caller
  passes; with neither, that is with \<^verbatim>\<open>None\<close> or the empty string, under a fresh
  \<^verbatim>\<open>uuid4\<close>. A second start, made once the pidfile of the first is released, runs
  under the persisted id again, whatever it is passed: under the id of the record that
  was there before the first start, or, when the first start has registered since,
  under the \<^verbatim>\<open>endpoint_id\<close> of the record that registration has written.
\<close>

lemma start_identity_precedence:
  assumes "lookup_dir w name = Some d" and "config_py d = Some cfg" and "pidfile w name = None"
  shows "(\<forall>reg i. endpoint_json d = Some (Json reg) \<and> map_of reg ''endpoint_id'' = Some i \<longrightarrow>
            snd (start_endpoint name endpoint_uuid env w) = Inr (Daemon (PyStr i))) \<and>
         (\<forall>s. endpoint_json d = None \<and> endpoint_uuid = PyStr s \<and> s \<noteq> [] \<longrightarrow>
            snd (start_endpoint name endpoint_uuid env w) = Inr (Daemon (PyStr s))) \<and>
         (endpoint_json d = None \<and> (endpoint_uuid = PyNone \<or> endpoint_uuid = PyStr []) \<longrightarrow>
            snd (start_endpoint name endpoint_uuid env w) = Inr (Daemon (PyStr (uuid4 env)))) \<and>
         (\<forall>reg i uuid2 env2.
            endpoint_json d = Some (Json reg) \<and> map_of reg ''endpoint_id'' = Some i \<longrightarrow>
            snd (start_endpoint name uuid2 env2
                   (remove_pidfile name (fst (start_endpoint name endpoint_uuid env w)))) =
              Inr (Daemon (PyStr i))) \<and>
         (\<forall>u client n reg i uuid2 env2.
            determine_uuid d endpoint_uuid (uuid4 env) = Inr u \<and>
            client n = Inr reg \<and> map_of reg ''endpoint_id'' = Some i \<longrightarrow>
            snd (start_endpoint name uuid2 env2
                   (remove_pidfile name
                      (fst (register_endpoint_body client name n
                              (fst (start_endpoint name endpoint_uuid env w)))))) =
              Inr (Daemon (PyStr i)))"
proof (intro conjI allI impI)
  fix reg i
  assume "endpoint_json d = Some (Json reg) \<and> map_of reg ''endpoint_id'' = Some i"
  moreover from assms(1,3) have "daemon_pid d = None" by (simp add: pidfile_def)
  ultimately show "snd (start_endpoint name endpoint_uuid env w) = Inr (Daemon (PyStr i))"
    using start_uses_record [OF assms(1,2)] by blast
next
  fix s
  assume "endpoint_json d = None \<and> endpoint_uuid = PyStr s \<and> s \<noteq> []"
  then have "determine_uuid d endpoint_uuid (uuid4 env) = Inr (PyStr s)"
    by (simp add: determine_uuid_def truthy_def)
  from start_enters_daemon [OF assms(1,2) this assms(3)]
  show "snd (start_endpoint name endpoint_uuid env w) = Inr (Daemon (PyStr s))" by simp
next
  assume "endpoint_json d = None \<and> (endpoint_uuid = PyNone \<or> endpoint_uuid = PyStr [])"
  then have "determine_uuid d endpoint_uuid (uuid4 env) = Inr (PyStr (uuid4 env))"
    by (auto simp: determine_uuid_def truthy_def)
  from start_enters_daemon [OF assms(1,2) this assms(3)]
  show "snd (start_endpoint name endpoint_uuid env w) = Inr (Daemon (PyStr (uuid4 env)))" by simp
next
  fix reg i uuid2 env2
  assume r: "endpoint_json d = Some (Json reg) \<and> map_of reg ''endpoint_id'' = Some i"
  then have u: "determine_uuid d endpoint_uuid (uuid4 env) = Inr (PyStr i)"
    by (simp add: determine_uuid_def)
  from start_keeps_record [OF assms(1,2) u assms(3)]
  obtain d' where d': "lookup_dir (fst (start_endpoint name endpoint_uuid env w)) name = Some d'"
      "config_py d' = Some cfg" "endpoint_json d' = endpoint_json d"
    by blast
  let ?w2 = "remove_pidfile name (fst (start_endpoint name endpoint_uuid env w))"
  have l2: "lookup_dir ?w2 name = Some (d'\<lparr>daemon_pid := None\<rparr>)"
    by (simp add: lookup_dir_remove_pidfile d'(1))
  show "snd (start_endpoint name uuid2 env2 ?w2) = Inr (Daemon (PyStr i))"
    by (rule start_uses_record [OF l2, of cfg reg]) (use d' r in simp_all)
next
  fix u and client :: "nat \<Rightarrow> exn + json" and n and reg :: json and i uuid2 env2
  assume a: "determine_uuid d endpoint_uuid (uuid4 env) = Inr u \<and>
      client n = Inr reg \<and> map_of reg ''endpoint_id'' = Some i"
  then have u: "determine_uuid d endpoint_uuid (uuid4 env) = Inr u" by simp
  from start_keeps_record [OF assms(1,2) u assms(3)]
  obtain d' where d': "lookup_dir (fst (start_endpoint name endpoint_uuid env w)) name = Some d'"
      "config_py d' = Some cfg"
    by blast
  let ?w1 = "fst (start_endpoint name endpoint_uuid env w)"
  let ?w2 = "remove_pidfile name (fst (register_endpoint_body client name n ?w1))"
  from a have c: "client n = Inr reg" by simp
  have l2: "lookup_dir ?w2 name = Some (d'\<lparr>endpoint_json := Some (Json reg), daemon_pid := None\<rparr>)"
    by (simp add: register_body_persists [of ?w1 name d' client n reg, OF d'(1) c]
        lookup_dir_remove_pidfile lookup_dir_write_endpoint_json d'(1))
  show "snd (start_endpoint name uuid2 env2 ?w2) = Inr (Daemon (PyStr i))"
    by (rule start_uses_record [OF l2, of cfg reg]) (use d' a in simp_all)
qed

lemma start_identity_precedence_examples:
  "snd (start_endpoint ''default'' (PyStr ''c0ffee00-0000-4000-8000-000000000001'') env0 w_registered) =
     Inr (Daemon (PyStr ''0c2a7e1e-5d2b-4b0f-9f5e-3a1d6c8b7a10'')) \<and>
   snd (start_endpoint ''default'' (PyStr ''c0ffee00-0000-4000-8000-000000000001'') env0 w_configured) =
     Inr (Daemon (PyStr ''c0ffee00-0000-4000-8000-000000000001'')) \<and>
   snd (start_endpoint ''default'' PyNone env0 w_configured) =
     Inr (Daemon (PyStr ''9b1deb4d-3b7d-4bad-9bdd-2b0d7b3dcb6d'')) \<and>
   snd (start_endpoint ''default'' PyNone env0
          (remove_pidfile ''default''
             (fst (start_endpoint ''default''
                     (PyStr ''c0ffee00-0000-4000-8000-000000000001'') env0 w_registered)))) =
     Inr (Daemon (PyStr ''0c2a7e1e-5d2b-4b0f-9f5e-3a1d6c8b7a10'')) \<and>
   snd (start_endpoint ''default'' PyNone env0
          (remove_pidfile ''default''
             (fst (register_endpoint_body hub_accepts ''default'' 0
                     (fst (start_endpoint ''default'' PyNone env0 w_configured)))))) =
     Inr (Daemon (PyStr ''0c2a7e1e-5d2b-4b0f-9f5e-3a1d6c8b7a10''))"
proof -
  let ?c = "PyStr ''c0ffee00-0000-4000-8000-000000000001''"
  have cr: "config_py \<lparr>config_py = Some cfg0, endpoint_json = Some (Json reg0), daemon_pid = None,
      other_files = []\<rparr> = Some cfg0" by simp
  have cc: "config_py \<lparr>config_py = Some cfg0, endpoint_json = None, daemon_pid = None,
      other_files = []\<rparr> = Some cfg0" by simp
  have i: "map_of reg0 ''endpoint_id'' = Some ''0c2a7e1e-5d2b-4b0f-9f5e-3a1d6c8b7a10''"
    by (simp add: reg0_def)
  have e: "uuid4 env0 = ''9b1deb4d-3b7d-4bad-9bdd-2b0d7b3dcb6d''" by (simp add: env0_def)
  note r = start_identity_precedence [OF w_registered_lookup cr w_registered_pidfile, of ?c env0]
  note c1 = start_identity_precedence [OF w_configured_lookup cc w_configured_pidfile, of ?c env0]
  note c2 = start_identity_precedence [OF w_configured_lookup cc w_configured_pidfile, of PyNone env0]
  from r i have 1: "snd (start_endpoint ''default'' ?c env0 w_registered) =
     Inr (Daemon (PyStr ''0c2a7e1e-5d2b-4b0f-9f5e-3a1d6c8b7a10''))"
    by simp
  from c1 have 2: "snd (start_endpoint ''default'' ?c env0 w_configured) = Inr (Daemon ?c)"
    by simp
  from c2 e have 3: "snd (start_endpoint ''default'' PyNone env0 w_configured) =
     Inr (Daemon (PyStr ''9b1deb4d-3b7d-4bad-9bdd-2b0d7b3dcb6d''))"
    by simp
  from r i have 4: "snd (start_endpoint ''default'' PyNone env0
          (remove_pidfile ''default'' (fst (start_endpoint ''default'' ?c env0 w_registered)))) =
     Inr (Daemon (PyStr ''0c2a7e1e-5d2b-4b0f-9f5e-3a1d6c8b7a10''))"
    by simp
  have d: "determine_uuid \<lparr>config_py = Some cfg0, endpoint_json = None, daemon_pid = None,
      other_files = []\<rparr> PyNone (uuid4 env0) = Inr (PyStr (uuid4 env0))"
    by (simp add: determine_uuid_def truthy_def)
  have h: "hub_accepts 0 = Inr reg0" by (simp add: hub_accepts_def)
  from c2 [THEN conjunct2, THEN conjunct2, THEN conjunct2, THEN conjunct2, rule_format,
      of "PyStr (uuid4 env0)" hub_accepts 0 reg0 "''0c2a7e1e-5d2b-4b0f-9f5e-3a1d6c8b7a10''" PyNone env0]
    d h i
  have 5: "snd (start_endpoint ''default'' PyNone env0
          (remove_pidfile ''default''
             (fst (register_endpoint_body hub_accepts ''default'' 0
                     (fst (start_endpoint ''default'' PyNone env0 w_configured)))))) =
     Inr (Daemon (PyStr ''0c2a7e1e-5d2b-4b0f-9f5e-3a1d6c8b7a10''))"
    by simp
  from 1 2 3 4 5 show ?thesis by simp
qed

section \<open>Listing\<close>

lemma list_row_spec:
  assumes "readable w nd"
  shows "list_row w nd = Inr (spec_row w nd)"
proof (cases nd)
  case (Pair n d)
  show ?thesis
  proof (cases "endpoint_json d")
    case None
    with Pair show ?thesis by (simp add: list_row_def spec_row_def)
  next
    case (Some f)
    with assms Pair obtain info i where f: "f = Json info"
      and i: "map_of info ''endpoint_id'' = Some i"
      and p: "pidfile w n = None \<or> (\<exists>pid. pidfile w n = Some (Some pid) \<and> 0 \<le> pid)"
      by (auto simp: readable_def split: json_file.splits option.splits)
    from p obtain r where r: "snd (check_pidfile w n default_match_name [] False) = Inr r"
      and a: "active r = 0 \<or> active r = 1"
    proof
      assume "pidfile w n = None"
      then have "snd (check_pidfile w n default_match_name [] False) = Inr \<lparr>exists = 0, active = 0\<rparr>"
        by (simp add: check_pidfile_absent)
      then show ?thesis using that by simp
    next
      assume "\<exists>pid. pidfile w n = Some (Some pid) \<and> 0 \<le> pid"
      then obtain pid where "pidfile w n = Some (Some pid)" and "0 \<le> pid" by blast
      from check_pidfile_present [OF this, of default_match_name "[]" False]
      show ?thesis using that by (simp split: if_splits)
    qed
    from a have "(active r \<noteq> 0) = (active r = 1)" by auto
    with Pair Some f i r show ?thesis
      by (simp add: list_row_def spec_row_def reports_active_def)
  qed
qed

lemma list_rows_spec:
  "\<forall>nd \<in> set nds. readable w nd \<Longrightarrow> list_rows w nds = Inr (map (spec_row w) nds)"
  by (induction nds) (simp_all add: list_row_spec)

text \<open>
  Claim C5. When every discovered directory can be reported on, \<^verbatim>\<open>list\<close> prints one
  row per directory that holds a \<^verbatim>\<open>config.py\<close>, in the order of discovery, and the
  row is the one the specification words: Initialized when there is no registration
  record; otherwise Active if \<^verbatim>\<open>check_pidfile\<close> on that endpoint's
  \<^verbatim>\<open>daemon.pid\<close> reports active and Inactive if not, with the \<^verbatim>\<open>endpoint_id\<close> of
  the record.
\<close>

theorem list_endpoints_status:
  assumes "\<forall>nd \<in> set (glob_config w). readable w nd"
  shows "list_endpoints w = (emit (Table (map (spec_row w) (glob_config w))) w, Inr ())"
  using assms by (simp add: list_endpoints_def list_rows_spec)

lemma w_three_glob: "glob_config w_three = dirs w_three"
  by (simp add: glob_config_def w_three_def)

lemma w_three_pidfiles:
  "pidfile w_three ''fresh'' = None"
  "pidfile w_three ''default'' = Some (Some 4242)"
  "pidfile w_three ''crashed'' = Some (Some 777)"
  by (simp_all add: pidfile_def lookup_dir_def w_three_def)

lemma w_three_procs:
  "\<exists>p. procs w_three 4242 = Some p \<and> pname p = default_match_name"
  "\<not> (\<exists>p. procs w_three 777 = Some p \<and> pname p = default_match_name)"
  by (simp_all add: w_three_def default_match_name_def)

lemma w_three_active:
  "reports_active w_three ''default''" "\<not> reports_active w_three ''crashed''"
proof -
  have z: "(0::int) \<le> 4242" "(0::int) \<le> 777" by simp_all
  from check_pidfile_present [OF w_three_pidfiles(2) z(1), of default_match_name "[]" False]
  show "reports_active w_three ''default''"
    by (simp only: w_three_procs(1) if_True reports_active_def) simp
  from check_pidfile_present [OF w_three_pidfiles(3) z(2), of default_match_name "[]" False]
  show "\<not> reports_active w_three ''crashed''"
    by (simp only: w_three_procs(2) if_False reports_active_def) simp
qed

theorem list_endpoints_status_witness:
  "list_endpoints w_three =
     (emit (Table [(''fresh'', ''Initialized'', None),
                   (''default'', ''Active'', Some ''0c2a7e1e-5d2b-4b0f-9f5e-3a1d6c8b7a10''),
                   (''crashed'', ''Inactive'', Some ''5e0f7a52-0d5c-4f0a-8a53-6d2f3b1c9e77'')])
        w_three, Inr ())"
proof -
  have d: "dirs w_three =
     [(''fresh'', \<lparr>config_py = Some cfg0, endpoint_json = None, daemon_pid = None,
                  other_files = []\<rparr>),
      (''default'', \<lparr>config_py = Some cfg0, endpoint_json = Some (Json reg0),
                    daemon_pid = Some (Some 4242), other_files = []\<rparr>),
      (''crashed'', \<lparr>config_py = Some cfg0,
                    endpoint_json = Some (Json [(''endpoint_id'', ''5e0f7a52-0d5c-4f0a-8a53-6d2f3b1c9e77'')]),
                    daemon_pid = Some (Some 777), other_files = []\<rparr>)]"
    by (simp add: w_three_def)
  have r: "\<forall>nd \<in> set (glob_config w_three). readable w_three nd"
    unfolding w_three_glob d by (simp add: readable_def w_three_pidfiles reg0_def)
  have m: "map (spec_row w_three) (glob_config w_three) =
      [(''fresh'', ''Initialized'', None),
       (''default'', ''Active'', Some ''0c2a7e1e-5d2b-4b0f-9f5e-3a1d6c8b7a10''),
       (''crashed'', ''Inactive'', Some ''5e0f7a52-0d5c-4f0a-8a53-6d2f3b1c9e77'')]"
    unfolding w_three_glob d by (simp add: spec_row_def w_three_active reg0_def)
  from list_endpoints_status [OF r] show ?thesis by (simp only: m)
qed

section \<open>Deleting\<close>

lemma lookup_dir_rmtree:
  "lookup_dir w name = Some d \<Longrightarrow>
   snd (rmtree name w) = Inr () \<and> name \<notin> fst ` set (dirs (fst (rmtree name w))) \<and>
   name \<notin> fst ` set (glob_config (fst (rmtree name w)))"
  by (auto simp: rmtree_def glob_config_def)

lemma stop_keeps_directory:
  "lookup_dir w name = Some d \<Longrightarrow> \<exists>d'. lookup_dir (fst (stop_endpoint name w)) name = Some d'"
  by (auto simp: stop_endpoint_def stop_cleanup_def os_kill_def Let_def lookup_dir_remove_pidfile
      split: option.splits if_splits signal.splits term_reaction.splits)

text \<open>
  When \<^verbatim>\<open>stop_endpoint\<close> returns, or there is no pidfile, a confirmed
  \<^verbatim>\<open>delete\<close> removes the directory, and the listing no longer has the name.
\<close>

lemma delete_removes_directory:
  assumes "lookup_dir w name = Some d" and "autoconfirm \<or> answer"
    and "pidfile w name = None \<or> autoconfirm \<and> snd (stop_endpoint name w) = Inr ()"
  shows "snd (delete_endpoint name autoconfirm answer w) = Inr () \<and>
         name \<notin> fst ` set (glob_config (fst (delete_endpoint name autoconfirm answer w)))"
proof (cases "pidfile w name = None")
  case True
  with assms(1,2) lookup_dir_rmtree [of "emit e w" name d for e] lookup_dir_rmtree [OF assms(1)]
  show ?thesis by (auto simp: delete_endpoint_def Let_def)
next
  case False
  with assms(3) have a: "autoconfirm" and s: "snd (stop_endpoint name w) = Inr ()" by auto
  obtain w1 where w1: "stop_endpoint name w = (w1, Inr ())"
    using s by (cases "stop_endpoint name w") auto
  from stop_keeps_directory [OF assms(1)] w1 obtain d' where "lookup_dir w1 name = Some d'"
    by auto
  from lookup_dir_rmtree [OF this] a False w1 show ?thesis
    by (simp add: delete_endpoint_def Let_def)
qed

text \<open>
  Claim C9 against the code. The endpoint \<open>default\<close> has a stale pidfile, and
  \<^verbatim>\<open>delete -y default\<close> calls \<^verbatim>\<open>stop_endpoint\<close>, whose \<^verbatim>\<open>os.kill\<close> raises
  OSError: the handler removes the pidfile and calls \<^verbatim>\<open>sys.exit(-1)\<close>, so
  \<^verbatim>\<open>shutil.rmtree\<close> is never reached. The directory is still there with its
  configuration and its registration record, and a listing still reports the name.
\<close>

theorem delete_stale_pidfile_keeps_directory:
  "snd (delete_endpoint ''default'' True False w_stale) = Inl (SystemExit (- 1)) \<and>
   lookup_dir (fst (delete_endpoint ''default'' True False w_stale)) ''default'' =
     Some \<lparr>config_py = Some cfg0, endpoint_json = Some (Json reg0), daemon_pid = None,
           other_files = []\<rparr> \<and>
   list_rows (fst (delete_endpoint ''default'' True False w_stale))
       (glob_config (fst (delete_endpoint ''default'' True False w_stale))) =
     Inr [(''default'', ''Inactive'', Some ''0c2a7e1e-5d2b-4b0f-9f5e-3a1d6c8b7a10'')]"
proof -
  let ?w' = "remove_pidfile ''default''
      (emit (Log WARNING ''Attempting Endpoint default cleanup'')
         (emit (Log WARNING ''Endpoint default could not be terminated'') w_stale))"
  have k: "snd (os_kill w_stale 4242 SIGTERM) = Inl OSError" by (simp add: w_stale_kill)
  have s: "stop_endpoint ''default'' w_stale = (?w', Inl (SystemExit (- 1)))"
    by (simp add: stop_first_signal_fails [OF w_stale_pidfile k] stop_cleanup_def Let_def
        w_stale_pidfile)
  have d: "delete_endpoint ''default'' True False w_stale = (?w', Inl (SystemExit (- 1)))"
    by (simp add: delete_endpoint_def Let_def w_stale_pidfile s)
  have ds: "dirs ?w' = [(''default'', \<lparr>config_py = Some cfg0, endpoint_json = Some (Json reg0),
      daemon_pid = None, other_files = []\<rparr>)]"
    by (simp add: remove_pidfile_def w_stale_def)
  have l: "lookup_dir ?w' ''default'' = Some \<lparr>config_py = Some cfg0,
      endpoint_json = Some (Json reg0), daemon_pid = None, other_files = []\<rparr>"
    by (simp add: lookup_dir_def ds)
  have g: "glob_config ?w' = dirs ?w'"
    by (simp add: glob_config_def ds)
  have p: "pidfile ?w' ''default'' = None" by (simp add: pidfile_def l)
  have r: "list_rows ?w' (dirs ?w') =
      Inr [(''default'', ''Inactive'', Some ''0c2a7e1e-5d2b-4b0f-9f5e-3a1d6c8b7a10'')]"
    unfolding ds by (simp add: list_row_def reg0_def check_pidfile_absent [OF p])
  show ?thesis unfolding d by (simp add: l g r)
qed

section \<open>Registering\<close>

lemma dirs_write_endpoint_json_lookup:
  "lookup_dir w name = Some d \<Longrightarrow>
   lookup_dir (write_endpoint_json name f w) name = Some (d\<lparr>endpoint_json := Some f\<rparr>)"
  by (simp add: lookup_dir_write_endpoint_json)

text \<open>
  Claim C10. \<^verbatim>\<open>register_with_hub\<close> writes \<^verbatim>\<open>endpoint.json\<close> only after a
  response with status 200: whenever the directories differ afterwards, the response
  had status 200. On any other status it raises RegistrationError with the response's
  reason and every file is as before; on a connection error it logs critically and
  ends the process (\<^verbatim>\<open>exit(-1)\<close>) with every file as before. On status 200 with a
  JSON body it writes that body to the endpoint's \<^verbatim>\<open>endpoint.json\<close> and returns it.
\<close>

theorem register_with_hub_writes_after_200:
  "(post (address @ ''/register'')
      [(''endpoint_id'', endpoint_uuid), (''endpoint_addr'', sites ! (pick mod length sites)),
       (''redis_address'', redis_host)] = Unreachable \<longrightarrow>
      snd (register_with_hub post pick endpoint_uuid name address redis_host w) =
        Inl (SystemExit (- 1)) \<and>
      dirs (fst (register_with_hub post pick endpoint_uuid name address redis_host w)) = dirs w \<and>
      Log CRITICAL (''Unable to reach the funcX hub at '' @ address) \<in>
        set (out (fst (register_with_hub post pick endpoint_uuid name address redis_host w)))) \<and>
   (\<forall>status_code reason body.
      post (address @ ''/register'')
        [(''endpoint_id'', endpoint_uuid), (''endpoint_addr'', sites ! (pick mod length sites)),
         (''redis_address'', redis_host)] = Response status_code reason body \<and>
      status_code \<noteq> 200 \<longrightarrow>
      snd (register_with_hub post pick endpoint_uuid name address redis_host w) =
        Inl (RegistrationError reason) \<and>
      dirs (fst (register_with_hub post pick endpoint_uuid name address redis_host w)) = dirs w) \<and>
   (\<forall>reason j d.
      post (address @ ''/register'')
        [(''endpoint_id'', endpoint_uuid), (''endpoint_addr'', sites ! (pick mod length sites)),
         (''redis_address'', redis_host)] = Response 200 reason (Some j) \<and>
      lookup_dir w name = Some d \<longrightarrow>
      snd (register_with_hub post pick endpoint_uuid name address redis_host w) = Inr j \<and>
      lookup_dir (fst (register_with_hub post pick endpoint_uuid name address redis_host w)) name =
        Some (d\<lparr>endpoint_json := Some (Json j)\<rparr>)) \<and>
   (dirs (fst (register_with_hub post pick endpoint_uuid name address redis_host w)) \<noteq> dirs w \<longrightarrow>
      (\<exists>reason body.
         post (address @ ''/register'')
           [(''endpoint_id'', endpoint_uuid), (''endpoint_addr'', sites ! (pick mod length sites)),
            (''redis_address'', redis_host)] = Response 200 reason body))"
  by (auto simp: register_with_hub_def Let_def dirs_write_endpoint_json_lookup
      split: http_outcome.splits option.splits)

theorem register_with_hub_writes_after_200_witness:
  "snd (register_with_hub post_down 2 ''9b1deb4d-3b7d-4bad-9bdd-2b0d7b3dcb6d'' ''default''
          ''http://localhost:8088'' ''127.0.0.1'' w_registered) = Inl (SystemExit (- 1)) \<and>
   dirs (fst (register_with_hub post_down 2 ''9b1deb4d-3b7d-4bad-9bdd-2b0d7b3dcb6d'' ''default''
          ''http://localhost:8088'' ''127.0.0.1'' w_registered)) = dirs w_registered \<and>
   snd (register_with_hub post_forbidden 2 ''9b1deb4d-3b7d-4bad-9bdd-2b0d7b3dcb6d'' ''default''
          ''http://localhost:8088'' ''127.0.0.1'' w_registered) =
     Inl (RegistrationError ''Forbidden'') \<and>
   dirs (fst (register_with_hub post_forbidden 2 ''9b1deb4d-3b7d-4bad-9bdd-2b0d7b3dcb6d''
          ''default'' ''http://localhost:8088'' ''127.0.0.1'' w_registered)) = dirs w_registered \<and>
   snd (register_with_hub post_ok 2 ''9b1deb4d-3b7d-4bad-9bdd-2b0d7b3dcb6d'' ''default''
          ''http://localhost:8088'' ''127.0.0.1'' w_configured) = Inr reg0 \<and>
   lookup_dir (fst (register_with_hub post_ok 2 ''9b1deb4d-3b7d-4bad-9bdd-2b0d7b3dcb6d''
          ''default'' ''http://localhost:8088'' ''127.0.0.1'' w_configured)) ''default'' =
     Some \<lparr>config_py = Some cfg0, endpoint_json = Some (Json reg0), daemon_pid = None,
           other_files = []\<rparr> \<and>
   dirs (fst (register_with_hub post_ok 2 ''9b1deb4d-3b7d-4bad-9bdd-2b0d7b3dcb6d''
          ''default'' ''http://localhost:8088'' ''127.0.0.1'' w_configured)) \<noteq> dirs w_configured \<and>
   (\<exists>reason body.
      post_ok (''http://localhost:8088'' @ ''/register'')
        [(''endpoint_id'', ''9b1deb4d-3b7d-4bad-9bdd-2b0d7b3dcb6d''),
         (''endpoint_addr'', sites ! (2 mod length sites)), (''redis_address'', ''127.0.0.1'')] =
      Response 200 reason body)"
proof -
  let ?u = "''9b1deb4d-3b7d-4bad-9bdd-2b0d7b3dcb6d''"
  let ?a = "''http://localhost:8088''"
  let ?r = "''127.0.0.1''"
  note dn = register_with_hub_writes_after_200 [of post_down ?a ?u 2 ?r "''default''" w_registered,
      THEN conjunct1]
  note fb = register_with_hub_writes_after_200 [of post_forbidden ?a ?u 2 ?r "''default''"
      w_registered, THEN conjunct2, THEN conjunct1, rule_format, of 403 "''Forbidden''" None]
  note ok = register_with_hub_writes_after_200 [of post_ok ?a ?u 2 ?r "''default''" w_configured,
      THEN conjunct2, THEN conjunct2, THEN conjunct1, rule_format, of "''OK''" reg0,
      OF conjI, OF _ w_configured_lookup]
  have 1: "snd (register_with_hub post_down 2 ?u ''default'' ?a ?r w_registered) =
      Inl (SystemExit (- 1)) \<and>
      dirs (fst (register_with_hub post_down 2 ?u ''default'' ?a ?r w_registered)) = dirs w_registered"
    using dn by (simp add: post_down_def)
  have 2: "snd (register_with_hub post_forbidden 2 ?u ''default'' ?a ?r w_registered) =
      Inl (RegistrationError ''Forbidden'') \<and>
      dirs (fst (register_with_hub post_forbidden 2 ?u ''default'' ?a ?r w_registered)) =
        dirs w_registered"
    using fb by (simp add: post_forbidden_def)
  have 3: "snd (register_with_hub post_ok 2 ?u ''default'' ?a ?r w_configured) = Inr reg0 \<and>
      lookup_dir (fst (register_with_hub post_ok 2 ?u ''default'' ?a ?r w_configured)) ''default'' =
        Some \<lparr>config_py = Some cfg0, endpoint_json = Some (Json reg0), daemon_pid = None,
              other_files = []\<rparr>"
    using ok by (simp add: post_ok_def)
  have 4: "dirs (fst (register_with_hub post_ok 2 ?u ''default'' ?a ?r w_configured)) \<noteq>
      dirs w_configured"
  proof
    assume "dirs (fst (register_with_hub post_ok 2 ?u ''default'' ?a ?r w_configured)) =
      dirs w_configured"
    then have "lookup_dir (fst (register_with_hub post_ok 2 ?u ''default'' ?a ?r w_configured))
        ''default'' = lookup_dir w_configured ''default''"
      by (simp add: lookup_dir_def)
    with 3 show False by (simp add: w_configured_lookup)
  qed
  from register_with_hub_writes_after_200 [of post_ok ?a ?u 2 ?r "''default''" w_configured,
      THEN conjunct2, THEN conjunct2, THEN conjunct2, THEN mp, OF 4]
  have 5: "\<exists>reason body.
      post_ok (?a @ ''/register'')
        [(''endpoint_id'', ?u), (''endpoint_addr'', sites ! (2 mod length sites)),
         (''redis_address'', ?r)] = Response 200 reason body" .
  from 1 2 3 4 5 show ?thesis by blast
qed

subsection \<open>The retry loop around register_endpoint\<close>

text \<open>With a negative \<open>tries\<close>, no exception that \<^verbatim>\<open>except Exception\<close> catches leaves the loop.\<close>

lemma retry_surfaces_no_Exception:
  assumes "retry_internal f backoff jitter tries delay n slept w = Some y" and "tries < 0"
  shows "case snd (snd y) of Inl e \<Rightarrow> \<not> is_Exception e | Inr _ \<Rightarrow> True"
  using assms
proof (induction rule: retry_internal.raw_induct [rotated 1, consumes 1])
  case (1 rec f backoff jitter tries delay n slept w y)
  note IH = 1(1) and body = 1(2) and neg = 1(3)
  from neg have t: "tries \<noteq> 0" "tries \<noteq> 1" "tries - 1 < 0" by auto
  show ?case
  proof (cases "f n w")
    case (Pair w1 r)
    show ?thesis
    proof (cases r)
      case (Inr v)
      with Pair body t show ?thesis by auto
    next
      case (Inl e)
      show ?thesis
      proof (cases "is_Exception e")
        case False
        with Pair Inl body t show ?thesis by auto
      next
        case True
        with Pair Inl body t
        have "rec f backoff jitter (tries - 1) (delay * backoff + jitter) (Suc n) (slept + delay)
                (emit (Retry_warning e delay) w1) = Some y"
          by simp
        from IH [OF this t(3)] show ?thesis .
      qed
    qed
  qed
qed

text \<open>When every call from number \<open>n\<close> on raises such an exception, the loop has no result.\<close>

lemma retry_runs_forever:
  assumes "retry_internal f backoff jitter tries delay n slept w = Some y" and "tries < 0"
    and "\<forall>k\<ge>n. \<forall>w. \<exists>e. snd (f k w) = Inl e \<and> is_Exception e"
  shows False
  using assms
proof (induction rule: retry_internal.raw_induct [rotated 1, consumes 1])
  case (1 rec f backoff jitter tries delay n slept w y)
  note IH = 1(1) and body = 1(2) and neg = 1(3) and raises = 1(4)
  from neg have t: "tries \<noteq> 0" "tries \<noteq> 1" "tries - 1 < 0" by auto
  from raises obtain e where e: "snd (f n w) = Inl e" "is_Exception e" by blast
  then obtain w1 where w1: "f n w = (w1, Inl e)" by (cases "f n w") auto
  with e body t
  have "rec f backoff jitter (tries - 1) (delay * backoff + jitter) (Suc n) (slept + delay)
          (emit (Retry_warning e delay) w1) = Some y"
    by simp
  moreover from raises have "\<forall>k\<ge>Suc n. \<forall>w. \<exists>e. snd (f k w) = Inl e \<and> is_Exception e"
    by auto
  ultimately show ?case using IH t(3) by blast
qed

text \<open>
  When the calls before number \<open>n + k\<close> raise and that one returns, the loop returns its
  record after \<open>k\<close> sleeps of 5, and the record is in \<^verbatim>\<open>endpoint.json\<close>.
\<close>

lemma retry_until_success:
  assumes "tries < 0" and "\<forall>i<k. \<exists>e. client (n + i) = Inl e \<and> is_Exception e"
    and "client (n + k) = Inr reg" and "lookup_dir w name = Some d"
  shows "\<exists>w'. retry_internal (register_endpoint_body client name) 1 0 tries 5 n slept w =
                Some (w', slept + 5 * k, Inr (Some reg)) \<and>
              lookup_dir w' name = Some (d\<lparr>endpoint_json := Some (Json reg)\<rparr>) \<and>
              procs w' = procs w"
  using assms
proof (induction k arbitrary: tries n slept w)
  case 0
  then have "register_endpoint_body client name n w = (write_endpoint_json name (Json reg) w, Inr reg)"
    by (simp add: register_endpoint_body_def)
  with 0 show ?case
    by (subst retry_internal.simps) (simp add: lookup_dir_write_endpoint_json)
next
  case (Suc k)
  from Suc.prems(2) obtain e where e: "client n = Inl e" "is_Exception e"
    by (metis add.right_neutral zero_less_Suc)
  then have b: "register_endpoint_body client name n w = (w, Inl e)"
    by (simp add: register_endpoint_body_def)
  from Suc.prems(1) have t: "tries \<noteq> 0" "tries \<noteq> 1" "tries - 1 < 0" by auto
  have r: "retry_internal (register_endpoint_body client name) 1 0 tries 5 n slept w =
      retry_internal (register_endpoint_body client name) 1 0 (tries - 1) 5 (Suc n) (slept + 5)
        (emit (Retry_warning e 5) w)"
    by (subst retry_internal.simps) (simp add: b e t)
  from Suc.prems(2) have f: "\<forall>i<k. \<exists>e. client (Suc n + i) = Inl e \<and> is_Exception e"
    by (metis add_Suc_shift Suc_less_eq)
  from Suc.prems(3) have s: "client (Suc n + k) = Inr reg" by simp
  from Suc.prems(4) have l: "lookup_dir (emit (Retry_warning e 5) w) name = Some d" by simp
  from Suc.IH [OF t(3) f s l, of "slept + 5"] r show ?case by auto
qed

text \<open>
  Claim C2, as stated, fails: the client's first call raises RegistrationError and its
  second returns the record. \<^verbatim>\<open>register_endpoint\<close> does not raise the error to its
  caller: it logs the retry warning, sleeps 5, calls again and returns the record.
\<close>

theorem registration_error_is_retried_counterexample:
  "register_endpoint rejected_once ''default'' w_configured =
     Some (write_endpoint_json ''default'' (Json reg0)
             (emit (Retry_warning (RegistrationError ''Forbidden'') 5) w_configured),
           5, Inr (Some reg0))"
proof -
  have b0: "register_endpoint_body rejected_once ''default'' 0 w_configured =
      (w_configured, Inl (RegistrationError ''Forbidden''))"
    by (simp add: register_endpoint_body_def)
  have l: "lookup_dir (emit (Retry_warning (RegistrationError ''Forbidden'') 5) w_configured)
      ''default'' \<noteq> None"
    by (simp add: w_configured_lookup)
  then have b1: "register_endpoint_body rejected_once ''default'' (Suc 0)
      (emit (Retry_warning (RegistrationError ''Forbidden'') 5) w_configured) =
      (write_endpoint_json ''default'' (Json reg0)
         (emit (Retry_warning (RegistrationError ''Forbidden'') 5) w_configured), Inr reg0)"
    by (auto simp: register_endpoint_body_def)
  show ?thesis
    unfolding register_endpoint_def
    by (subst retry_internal.simps, simp add: b0 is_Exception_def,
        subst retry_internal.simps, simp add: b1)
qed

text \<open>
  Claim C2, amended. \<^verbatim>\<open>register_endpoint\<close> runs under a retry with a fixed delay of 5
  and no bound on the attempts, and the retry catches every exception of an attempt, a
  RegistrationError as much as a connection error: when the first \<open>k\<close> attempts raise
  and the next returns a record, the call returns that record after \<open>k\<close> sleeps of 5,
  with the record written to \<^verbatim>\<open>endpoint.json\<close>; when every attempt raises, the call
  never returns; and no such exception ever reaches the caller. Only what
  \<^verbatim>\<open>except Exception\<close> does not catch (the interrupt or exit of the process) ends
  the loop without a registration.
\<close>

theorem register_endpoint_retries_every_exception:
  "(\<forall>k reg d. (\<forall>i<k. \<exists>e. client i = Inl e \<and> is_Exception e) \<and> client k = Inr reg \<and>
       lookup_dir w name = Some d \<longrightarrow>
       (\<exists>w'. register_endpoint client name w = Some (w', 5 * k, Inr (Some reg)) \<and>
             lookup_dir w' name = Some (d\<lparr>endpoint_json := Some (Json reg)\<rparr>))) \<and>
   ((\<forall>i. \<exists>e. client i = Inl e \<and> is_Exception e) \<longrightarrow> register_endpoint client name w = None) \<and>
   (\<forall>w' t e. register_endpoint client name w = Some (w', t, Inl e) \<longrightarrow> \<not> is_Exception e) \<and>
   is_Exception (RegistrationError reason) \<and> is_Exception ConnectionError"
proof (intro conjI allI impI)
  fix k reg d
  assume a: "(\<forall>i<k. \<exists>e. client i = Inl e \<and> is_Exception e) \<and> client k = Inr reg \<and>
       lookup_dir w name = Some d"
  have t: "(- 1 :: int) < 0" by simp
  from a have f: "\<forall>i<k. \<exists>e. client (0 + i) = Inl e \<and> is_Exception e"
    and s: "client (0 + k) = Inr reg" and l: "lookup_dir w name = Some d"
    by auto
  from retry_until_success [OF t f s l, of 0]
  show "\<exists>w'. register_endpoint client name w = Some (w', 5 * k, Inr (Some reg)) \<and>
             lookup_dir w' name = Some (d\<lparr>endpoint_json := Some (Json reg)\<rparr>)"
    by (auto simp: register_endpoint_def)
next
  assume a: "\<forall>i. \<exists>e. client i = Inl e \<and> is_Exception e"
  show "register_endpoint client name w = None"
  proof (rule ccontr)
    assume "register_endpoint client name w \<noteq> None"
    then obtain y where y: "retry_internal (register_endpoint_body client name) 1 0 (- 1) 5 0 0 w = Some y"
      by (auto simp: register_endpoint_def)
    have "\<forall>k\<ge>0. \<forall>w. \<exists>e. snd (register_endpoint_body client name k w) = Inl e \<and> is_Exception e"
    proof (intro allI impI)
      fix k :: nat and w
      from a obtain e where "client k = Inl e" "is_Exception e" by blast
      then show "\<exists>e. snd (register_endpoint_body client name k w) = Inl e \<and> is_Exception e"
        by (simp add: register_endpoint_body_def)
    qed
    from retry_runs_forever [OF y _ this] show False by simp
  qed
next
  fix w' t e
  assume "register_endpoint client name w = Some (w', t, Inl e)"
  then have "retry_internal (register_endpoint_body client name) 1 0 (- 1) 5 0 0 w =
      Some (w', t, Inl e)"
    by (simp add: register_endpoint_def)
  from retry_surfaces_no_Exception [OF this] show "\<not> is_Exception e" by simp
next
  show "is_Exception (RegistrationError reason)" by (simp add: is_Exception_def)
  show "is_Exception ConnectionError" by (simp add: is_Exception_def)
qed

theorem register_endpoint_retries_every_exception_witness:
  "(\<exists>w'. register_endpoint rejected_once ''default'' w_configured = Some (w', 5, Inr (Some reg0)) \<and>
         lookup_dir w' ''default'' =
           Some \<lparr>config_py = Some cfg0, endpoint_json = Some (Json reg0), daemon_pid = None,
                 other_files = []\<rparr>) \<and>
   register_endpoint hub_unreachable ''default'' w_configured = None \<and>
   register_endpoint interrupted ''default'' w_configured =
     Some (w_configured, 0, Inl KeyboardInterrupt) \<and>
   \<not> is_Exception KeyboardInterrupt"
proof -
  note r = register_endpoint_retries_every_exception [of rejected_once w_configured "''default''"]
  have h: "(\<forall>i<Suc 0. \<exists>e. rejected_once i = Inl e \<and> is_Exception e) \<and>
      rejected_once (Suc 0) = Inr reg0 \<and>
      lookup_dir w_configured ''default'' =
        Some \<lparr>config_py = Some cfg0, endpoint_json = None, daemon_pid = None, other_files = []\<rparr>"
    by (simp add: is_Exception_def w_configured_lookup)
  from r [THEN conjunct1, rule_format, OF h]
  have 1: "\<exists>w'. register_endpoint rejected_once ''default'' w_configured =
        Some (w', 5, Inr (Some reg0)) \<and>
      lookup_dir w' ''default'' =
        Some \<lparr>config_py = Some cfg0, endpoint_json = Some (Json reg0), daemon_pid = None,
              other_files = []\<rparr>"
    by simp
  have u: "\<forall>i. \<exists>e. hub_unreachable i = Inl e \<and> is_Exception e"
    by (simp add: hub_unreachable_def is_Exception_def)
  from register_endpoint_retries_every_exception [of hub_unreachable w_configured "''default''",
      THEN conjunct2, THEN conjunct1, THEN mp, OF u]
  have 2: "register_endpoint hub_unreachable ''default'' w_configured = None" .
  have 3: "register_endpoint interrupted ''default'' w_configured =
      Some (w_configured, 0, Inl KeyboardInterrupt)"
    unfolding register_endpoint_def
    by (subst retry_internal.simps)
      (simp add: register_endpoint_body_def interrupted_def is_Exception_def)
  from register_endpoint_retries_every_exception [of interrupted w_configured "''default''",
      THEN conjunct2, THEN conjunct2, THEN conjunct1, rule_format, OF 3]
  have 4: "\<not> is_Exception KeyboardInterrupt" .
  from 1 2 3 4 show ?thesis by blast
qed

section \<open>Restarting\<close>

lemma determine_uuid_pidfile [simp]:
  "determine_uuid (d\<lparr>daemon_pid := x\<rparr>) endpoint_uuid fresh = determine_uuid d endpoint_uuid fresh"
  by (simp add: determine_uuid_def)

lemma restart_after_stop:
  "snd (stop_endpoint name w) = Inr () \<Longrightarrow>
   restart_endpoint name env w = start_endpoint name OptionInfo env (fst (stop_endpoint name w))"
  by (cases "stop_endpoint name w") (simp add: restart_endpoint_def)

lemma restart_stop_fails:
  "snd (stop_endpoint name w) = Inl e \<Longrightarrow>
   restart_endpoint name env w = (fst (stop_endpoint name w), Inl e)"
  by (cases "stop_endpoint name w") (simp add: restart_endpoint_def)

text \<open>The three ways in which \<^verbatim>\<open>stop_endpoint\<close> returns.\<close>

lemma stop_no_pidfile:
  "pidfile w name = None \<Longrightarrow>
   stop_endpoint name w = (emit (Log INFO (''Endpoint <'' @ name @ ''> is not active.'')) w, Inr ())"
  by (simp add: stop_endpoint_def)

lemma stop_released:
  assumes "pidfile w name = Some (Some pid)" and "procs w pid = Some p" and "may_signal p"
    and "on_term p = Releases_and_lingers name" and "0 \<le> pid" and "pid \<le> 2147483647"
  shows "stop_endpoint name w =
           (emit (Log INFO (''Endpoint <'' @ name @ ''> is now stopped''))
              (end_process pid (remove_pidfile name w)), Inr ())"
  using assms by (simp add: stop_endpoint_def os_kill_def pidfile_remove_pidfile)

lemma stop_left_behind:
  assumes "pidfile w name = Some (Some pid)" and "procs w pid = Some p" and "may_signal p"
    and "on_term p = Lingers" and "0 \<le> pid" and "pid \<le> 2147483647"
  shows "stop_endpoint name w = (end_process pid w, Inr ())"
  using assms by (simp add: stop_endpoint_def os_kill_def)

text \<open>Once \<^verbatim>\<open>stop_endpoint\<close> has returned, the check does not report the endpoint active.\<close>

lemma stop_returned_not_active:
  assumes "snd (stop_endpoint name w) = Inr ()"
    and "pidfile w name = None \<or> (\<exists>pid. pidfile w name = Some (Some pid) \<and> 0 \<le> pid)"
  shows "\<exists>r. snd (check_pidfile (fst (stop_endpoint name w)) name match_name e lg) = Inr r \<and>
             active r = 0"
proof (cases "pidfile w name")
  case None
  then show ?thesis by (simp add: stop_no_pidfile check_pidfile_absent)
next
  case (Some content)
  with assms(2) obtain pid where p: "pidfile w name = Some (Some pid)" and z: "0 \<le> pid" by auto
  let ?w' = "fst (stop_endpoint name w)"
  from assms(1) p have g: "procs ?w' pid = None"
    and f: "pidfile ?w' name = None \<or> pidfile ?w' name = Some (Some pid)"
    by (auto simp: stop_endpoint_def stop_cleanup_def os_kill_def Let_def pidfile_remove_pidfile
        split: option.splits if_splits term_reaction.splits)
  from f show ?thesis
  proof
    assume "pidfile ?w' name = None"
    then show ?thesis by (simp add: check_pidfile_absent)
  next
    assume "pidfile ?w' name = Some (Some pid)"
    from check_pidfile_present [OF this z, of match_name e lg] g show ?thesis by simp
  qed
qed

text \<open>An endpoint with no pidfile is active after the restart.\<close>

lemma restart_from_no_pidfile:
  assumes "lookup_dir w name = Some d" and "config_py d = Some cfg"
    and "determine_uuid d OptionInfo (uuid4 env) = Inr u" and "pidfile w name = None"
    and "pname (daemon env) = default_match_name" and "0 \<le> new_pid env"
  shows "snd (restart_endpoint name env w) = Inr (Daemon u) \<and>
         pidfile (fst (restart_endpoint name env w)) name = Some (Some (new_pid env)) \<and>
         snd (check_pidfile (fst (restart_endpoint name env w)) name default_match_name [] False) =
           Inr \<lparr>exists = 1, active = 1\<rparr>"
proof -
  let ?w1 = "emit (Log INFO (''Endpoint <'' @ name @ ''> is not active.'')) w"
  have r: "restart_endpoint name env w = start_endpoint name OptionInfo env ?w1"
    by (simp add: restart_endpoint_def stop_no_pidfile [OF assms(4)])
  have l: "lookup_dir ?w1 name = Some d" using assms(1) by simp
  have p: "pidfile ?w1 name = None" using assms(4) by simp
  from start_enters_daemon [OF l assms(2,3) p]
    start_daemon_is_active [OF l assms(2,3) p assms(5,6), of "[]" False]
  show ?thesis by (simp add: r)
qed

text \<open>
  A running daemon that releases its pidfile on SIGTERM and is ended by SIGKILL is
  replaced: the pidfile holds the pid of the new daemon.
\<close>

lemma restart_released:
  assumes "lookup_dir w name = Some d" and "config_py d = Some cfg"
    and "determine_uuid d OptionInfo (uuid4 env) = Inr u"
    and "pidfile w name = Some (Some pid)" and "procs w pid = Some p" and "may_signal p"
    and "on_term p = Releases_and_lingers name" and "0 \<le> pid" and "pid \<le> 2147483647"
    and "pname (daemon env) = default_match_name" and "0 \<le> new_pid env"
  shows "snd (restart_endpoint name env w) = Inr (Daemon u) \<and>
         pidfile (fst (restart_endpoint name env w)) name = Some (Some (new_pid env)) \<and>
         snd (check_pidfile (fst (restart_endpoint name env w)) name default_match_name [] False) =
           Inr \<lparr>exists = 1, active = 1\<rparr>"
proof -
  let ?w1 = "emit (Log INFO (''Endpoint <'' @ name @ ''> is now stopped''))
      (end_process pid (remove_pidfile name w))"
  have r: "restart_endpoint name env w = start_endpoint name OptionInfo env ?w1"
    by (simp add: restart_endpoint_def stop_released [OF assms(4-9)])
  have l: "lookup_dir ?w1 name = Some (d\<lparr>daemon_pid := None\<rparr>)"
    using assms(1) by (simp add: lookup_dir_remove_pidfile)
  have c: "config_py (d\<lparr>daemon_pid := None\<rparr>) = Some cfg" using assms(2) by simp
  have i: "determine_uuid (d\<lparr>daemon_pid := None\<rparr>) OptionInfo (uuid4 env) = Inr u"
    using assms(3) by simp
  have q: "pidfile ?w1 name = None" by (simp add: pidfile_remove_pidfile)
  from start_enters_daemon [OF l c i q]
    start_daemon_is_active [OF l c i q assms(10,11), of "[]" False]
  show ?thesis by (simp add: r)
qed

text \<open>
  A running daemon that SIGKILL ends before it has released its pidfile leaves the
  pidfile behind: \<^verbatim>\<open>start\<close> returns at its pidfile check, no daemon runs, and the
  pidfile keeps the old pid.
\<close>

lemma restart_left_behind:
  assumes "lookup_dir w name = Some d" and "config_py d = Some cfg"
    and "determine_uuid d OptionInfo (uuid4 env) = Inr u"
    and "pidfile w name = Some (Some pid)" and "0 \<le> pid" and "pid \<le> 2147483647"
    and "procs w pid = Some p" and "may_signal p" and "on_term p = Lingers"
  shows "snd (restart_endpoint name env w) = Inr Refused \<and>
         pidfile (fst (restart_endpoint name env w)) name = Some (Some pid) \<and>
         procs (fst (restart_endpoint name env w)) = (procs w)(pid := None)"
proof -
  let ?w1 = "end_process pid w"
  have r: "restart_endpoint name env w = start_endpoint name OptionInfo env ?w1"
    by (simp add: restart_endpoint_def stop_left_behind [OF assms(4,7,8,9,5,6)])
  have l: "lookup_dir ?w1 name = Some d" using assms(1) by simp
  have q: "pidfile ?w1 name = Some (Some pid)" using assms(4) by simp
  from start_refused [OF l assms(2,3) q assms(5)]
  have s: "snd (start_endpoint name OptionInfo env ?w1) = Inr Refused"
    and d: "dirs (fst (start_endpoint name OptionInfo env ?w1)) = dirs ?w1"
    and g: "procs (fst (start_endpoint name OptionInfo env ?w1)) = procs ?w1"
    by auto
  from d have "pidfile (fst (start_endpoint name OptionInfo env ?w1)) name = pidfile ?w1 name"
    by (simp add: pidfile_def lookup_dir_def)
  with s g q show ?thesis by (simp add: r)
qed

text \<open>
  On a configured endpoint that has never registered, the start that \<^verbatim>\<open>restart\<close>
  makes runs under the parameter's declared default, not under a fresh UUID.
\<close>

lemma restart_unregistered_identity:
  "snd (restart_endpoint ''default'' env0 w_configured) = Inr (Daemon OptionInfo)"
proof -
  have u: "determine_uuid \<lparr>config_py = Some cfg0, endpoint_json = None, daemon_pid = None,
      other_files = []\<rparr> OptionInfo (uuid4 env0) = Inr OptionInfo"
    by (simp add: determine_uuid_def truthy_def)
  have c: "config_py \<lparr>config_py = Some cfg0, endpoint_json = None, daemon_pid = None,
      other_files = []\<rparr> = Some cfg0" by simp
  have n: "pname (daemon env0) = default_match_name" "0 \<le> new_pid env0"
    by (simp_all add: env0_def default_match_name_def)
  from restart_from_no_pidfile [OF w_configured_lookup c u w_configured_pidfile n]
  show ?thesis by simp
qed

lemma w_busy_facts:
  "lookup_dir w_busy ''default'' =
     Some \<lparr>config_py = Some cfg0, endpoint_json = Some (Json reg0),
           daemon_pid = Some (Some 4242), other_files = []\<rparr>"
  "pidfile w_busy ''default'' = Some (Some 4242)"
  "procs w_busy 4242 = Some \<lparr>pname = ''funcx-endpoint'', may_signal = True, on_term = Lingers\<rparr>"
  by (simp_all add: pidfile_def lookup_dir_def w_busy_def)

lemma w_exits_facts:
  "pidfile w_exits ''default'' = Some (Some 4242)"
  "procs w_exits 4242 = Some \<lparr>pname = ''funcx-endpoint'', may_signal = True,
      on_term = Releases_and_exits ''default''\<rparr>"
  by (simp_all add: pidfile_def lookup_dir_def w_exits_def)

lemma env0_facts:
  "pname (daemon env0) = default_match_name" "0 \<le> new_pid env0" "new_pid env0 = 5151"
  by (simp_all add: env0_def default_match_name_def)

text \<open>
  What \<^verbatim>\<open>restart_endpoint\<close> does in the runs in which \<^verbatim>\<open>stop_endpoint\<close> returns:
  it goes on with \<^verbatim>\<open>start_endpoint\<close>. With no pidfile before, and with a daemon that
  has released its pidfile by then, the endpoint is active afterwards; with the pidfile
  left behind, \<^verbatim>\<open>start_endpoint\<close> returns at its pidfile check. Once
  \<^verbatim>\<open>stop_endpoint\<close> has returned the endpoint is not active.
\<close>

lemma restart_when_stop_returns:
  "(snd (stop_endpoint name w) = Inr () \<longrightarrow>
      restart_endpoint name env w =
        start_endpoint name OptionInfo env (fst (stop_endpoint name w))) \<and>
   (lookup_dir w name = Some d \<and> config_py d = Some cfg \<and>
    determine_uuid d OptionInfo (uuid4 env) = Inr u \<and>
    pname (daemon env) = default_match_name \<and> 0 \<le> new_pid env \<longrightarrow>
      (pidfile w name = None \<longrightarrow>
         snd (restart_endpoint name env w) = Inr (Daemon u) \<and>
         snd (check_pidfile (fst (restart_endpoint name env w)) name default_match_name [] False) =
           Inr \<lparr>exists = 1, active = 1\<rparr>) \<and>
      (\<forall>pid p. pidfile w name = Some (Some pid) \<and> 0 \<le> pid \<and> pid \<le> 2147483647 \<and>
             procs w pid = Some p \<and> may_signal p \<and>
             on_term p = Releases_and_lingers name \<longrightarrow>
         snd (restart_endpoint name env w) = Inr (Daemon u) \<and>
         pidfile (fst (restart_endpoint name env w)) name = Some (Some (new_pid env)) \<and>
         snd (check_pidfile (fst (restart_endpoint name env w)) name default_match_name [] False) =
           Inr \<lparr>exists = 1, active = 1\<rparr>) \<and>
      (\<forall>pid p. pidfile w name = Some (Some pid) \<and> 0 \<le> pid \<and> pid \<le> 2147483647 \<and>
             procs w pid = Some p \<and> may_signal p \<and> on_term p = Lingers \<longrightarrow>
         snd (restart_endpoint name env w) = Inr Refused \<and>
         pidfile (fst (restart_endpoint name env w)) name = Some (Some pid) \<and>
         procs (fst (restart_endpoint name env w)) = (procs w)(pid := None))) \<and>
   (snd (stop_endpoint name w) = Inr () \<and>
    (pidfile w name = None \<or> (\<exists>pid. pidfile w name = Some (Some pid) \<and> 0 \<le> pid)) \<longrightarrow>
      (\<exists>r. snd (check_pidfile (fst (stop_endpoint name w)) name default_match_name [] False) = Inr r \<and>
           active r = 0))"
proof (intro conjI impI allI)
  assume "snd (stop_endpoint name w) = Inr ()"
  then show "restart_endpoint name env w =
      start_endpoint name OptionInfo env (fst (stop_endpoint name w))"
    by (rule restart_after_stop)
next
  assume a: "lookup_dir w name = Some d \<and> config_py d = Some cfg \<and>
    determine_uuid d OptionInfo (uuid4 env) = Inr u \<and>
    pname (daemon env) = default_match_name \<and> 0 \<le> new_pid env"
    and p: "pidfile w name = None"
  from a p restart_from_no_pidfile [of w name d cfg env u]
  show "snd (restart_endpoint name env w) = Inr (Daemon u)"
    and "snd (check_pidfile (fst (restart_endpoint name env w)) name default_match_name [] False) =
           Inr \<lparr>exists = 1, active = 1\<rparr>"
    by blast+
next
  fix pid p
  assume a: "lookup_dir w name = Some d \<and> config_py d = Some cfg \<and>
    determine_uuid d OptionInfo (uuid4 env) = Inr u \<and>
    pname (daemon env) = default_match_name \<and> 0 \<le> new_pid env"
    and b: "pidfile w name = Some (Some pid) \<and> 0 \<le> pid \<and> pid \<le> 2147483647 \<and>
             procs w pid = Some p \<and> may_signal p \<and>
             on_term p = Releases_and_lingers name"
  from a b restart_released [of w name d cfg env u pid p]
  show "snd (restart_endpoint name env w) = Inr (Daemon u)"
    and "pidfile (fst (restart_endpoint name env w)) name = Some (Some (new_pid env))"
    and "snd (check_pidfile (fst (restart_endpoint name env w)) name default_match_name [] False) =
           Inr \<lparr>exists = 1, active = 1\<rparr>"
    by blast+
next
  fix pid p
  assume a: "lookup_dir w name = Some d \<and> config_py d = Some cfg \<and>
    determine_uuid d OptionInfo (uuid4 env) = Inr u \<and>
    pname (daemon env) = default_match_name \<and> 0 \<le> new_pid env"
    and b: "pidfile w name = Some (Some pid) \<and> 0 \<le> pid \<and> pid \<le> 2147483647 \<and>
             procs w pid = Some p \<and> may_signal p \<and> on_term p = Lingers"
  from a b restart_left_behind [of w name d cfg env u pid p]
  show "snd (restart_endpoint name env w) = Inr Refused"
    and "pidfile (fst (restart_endpoint name env w)) name = Some (Some pid)"
    and "procs (fst (restart_endpoint name env w)) = (procs w)(pid := None)"
    by blast+
next
  assume "snd (stop_endpoint name w) = Inr () \<and>
    (pidfile w name = None \<or> (\<exists>pid. pidfile w name = Some (Some pid) \<and> 0 \<le> pid))"
  then show "\<exists>r. snd (check_pidfile (fst (stop_endpoint name w)) name default_match_name [] False) = Inr r \<and>
           active r = 0"
    using stop_returned_not_active by blast
qed

text \<open>
  Claim C8 against the code. The claim says that an endpoint inactive before the
  restart is active after it, and that an active endpoint has a new pid in its pidfile
  after it. Four concrete runs of \<^verbatim>\<open>restart default\<close> in which the code does neither:
  \<^item> the endpoint is inactive with a stale pidfile: \<^verbatim>\<open>os.kill\<close> raises OSError, the
    handler of \<^verbatim>\<open>stop_endpoint\<close> removes the pidfile and calls \<^verbatim>\<open>sys.exit(-1)\<close>, and
    \<^verbatim>\<open>start_endpoint\<close> is never called: the endpoint is not active afterwards;
  \<^item> the endpoint is active and its daemon releases its pidfile and is gone before
    SIGKILL is sent: the second \<^verbatim>\<open>os.kill\<close> raises OSError, \<^verbatim>\<open>os.remove\<close> raises
    FileNotFoundError, and again \<^verbatim>\<open>start_endpoint\<close> is never called: no daemon runs;
  \<^item> the endpoint is active and SIGKILL ends its daemon before it has released its
    pidfile: \<^verbatim>\<open>stop_endpoint\<close> returns and leaves the pidfile, \<^verbatim>\<open>start_endpoint\<close>
    returns at its pidfile check: the pidfile holds the old pid and no daemon runs;
  \<^item> the endpoint is configured and has never registered: \<^verbatim>\<open>start_endpoint(name)\<close>,
    called as a plain function, runs under the declared default of its parameter, where
    the command \<^verbatim>\<open>start default\<close> after \<^verbatim>\<open>stop default\<close> runs under a fresh UUID.
\<close>

theorem restart_leaves_endpoint_stopped:
  "snd (check_pidfile w_stale ''default'' default_match_name [] False) =
     Inr \<lparr>exists = 1, active = 0\<rparr> \<and>
   snd (restart_endpoint ''default'' env0 w_stale) = Inl (SystemExit (- 1)) \<and>
   snd (check_pidfile (fst (restart_endpoint ''default'' env0 w_stale)) ''default''
          default_match_name [] False) = Inr \<lparr>exists = 0, active = 0\<rparr> \<and>
   procs (fst (restart_endpoint ''default'' env0 w_stale)) 5151 = None \<and>
   snd (check_pidfile w_exits ''default'' default_match_name [] False) =
     Inr \<lparr>exists = 1, active = 1\<rparr> \<and>
   snd (restart_endpoint ''default'' env0 w_exits) = Inl FileNotFoundError \<and>
   pidfile (fst (restart_endpoint ''default'' env0 w_exits)) ''default'' = None \<and>
   procs (fst (restart_endpoint ''default'' env0 w_exits)) 4242 = None \<and>
   procs (fst (restart_endpoint ''default'' env0 w_exits)) 5151 = None \<and>
   snd (check_pidfile w_busy ''default'' default_match_name [] False) =
     Inr \<lparr>exists = 1, active = 1\<rparr> \<and>
   snd (restart_endpoint ''default'' env0 w_busy) = Inr Refused \<and>
   pidfile (fst (restart_endpoint ''default'' env0 w_busy)) ''default'' = Some (Some 4242) \<and>
   procs (fst (restart_endpoint ''default'' env0 w_busy)) 4242 = None \<and>
   procs (fst (restart_endpoint ''default'' env0 w_busy)) 5151 = None \<and>
   snd (restart_endpoint ''default'' env0 w_configured) = Inr (Daemon OptionInfo) \<and>
   snd (start_endpoint ''default'' PyNone env0 (fst (stop_endpoint ''default'' w_configured))) =
     Inr (Daemon (PyStr ''9b1deb4d-3b7d-4bad-9bdd-2b0d7b3dcb6d''))"
proof -
  have z: "(0::int) \<le> 4242" "(4242::int) \<le> 2147483647" by simp_all
  \<comment> \<open>the stale pidfile\<close>
  have n: "\<not> (\<exists>p. procs w_stale 4242 = Some p \<and> pname p = default_match_name)"
    by (simp add: w_stale_def)
  from check_pidfile_present [OF w_stale_pidfile z(1), of default_match_name "[]" False]
  have 1: "snd (check_pidfile w_stale ''default'' default_match_name [] False) =
      Inr \<lparr>exists = 1, active = 0\<rparr>"
    by (simp only: n if_False)
  have k: "snd (os_kill w_stale 4242 SIGTERM) = Inl OSError" by (simp add: w_stale_kill)
  have s: "snd (stop_endpoint ''default'' w_stale) = Inl (SystemExit (- 1))"
    by (simp add: stop_first_signal_fails [OF w_stale_pidfile k] stop_cleanup_exit w_stale_pidfile)
  have p: "pidfile (fst (stop_endpoint ''default'' w_stale)) ''default'' = None"
    "procs (fst (stop_endpoint ''default'' w_stale)) = procs w_stale"
    using stop_cleanup_OSError [of "''default''" w_stale]
    by (simp_all add: stop_first_signal_fails [OF w_stale_pidfile k])
  from restart_stop_fails [OF s, of env0] p
  have 2: "snd (restart_endpoint ''default'' env0 w_stale) = Inl (SystemExit (- 1)) \<and>
      snd (check_pidfile (fst (restart_endpoint ''default'' env0 w_stale)) ''default''
          default_match_name [] False) = Inr \<lparr>exists = 0, active = 0\<rparr> \<and>
      procs (fst (restart_endpoint ''default'' env0 w_stale)) 5151 = None"
    by (simp add: check_pidfile_absent) (simp add: w_stale_def)
  \<comment> \<open>the daemon that is gone before SIGKILL\<close>
  have ae: "\<exists>p. procs w_exits 4242 = Some p \<and> pname p = default_match_name"
    by (simp add: w_exits_facts default_match_name_def)
  from check_pidfile_present [OF w_exits_facts(1) z(1), of default_match_name "[]" False]
  have 3: "snd (check_pidfile w_exits ''default'' default_match_name [] False) =
      Inr \<lparr>exists = 1, active = 1\<rparr>"
    by (simp only: ae if_True)
  have t: "os_kill w_exits 4242 SIGTERM =
      (remove_pidfile ''default'' (end_process 4242 w_exits), Inr ())"
    by (simp add: os_kill_def w_exits_facts(2))
  have se: "stop_endpoint ''default'' w_exits =
      (emit (Log WARNING ''Attempting Endpoint default cleanup'')
         (emit (Log WARNING ''Endpoint default could not be terminated'')
            (remove_pidfile ''default'' (end_process 4242 w_exits))), Inl FileNotFoundError)"
    by (simp add: stop_endpoint_def w_exits_facts(1) t) (simp add: os_kill_def stop_cleanup_def
        Let_def pidfile_remove_pidfile)
  have 4: "snd (restart_endpoint ''default'' env0 w_exits) = Inl FileNotFoundError \<and>
      pidfile (fst (restart_endpoint ''default'' env0 w_exits)) ''default'' = None \<and>
      procs (fst (restart_endpoint ''default'' env0 w_exits)) 4242 = None \<and>
      procs (fst (restart_endpoint ''default'' env0 w_exits)) 5151 = None"
    by (simp add: restart_endpoint_def se pidfile_remove_pidfile) (simp add: w_exits_def)
  \<comment> \<open>the daemon that leaves its pidfile behind\<close>
  have a: "\<exists>p. procs w_busy 4242 = Some p \<and> pname p = default_match_name"
    by (simp add: w_busy_facts default_match_name_def)
  from check_pidfile_present [OF w_busy_facts(2) z(1), of default_match_name "[]" False]
  have 5: "snd (check_pidfile w_busy ''default'' default_match_name [] False) =
      Inr \<lparr>exists = 1, active = 1\<rparr>"
    by (simp only: a if_True)
  have c: "config_py \<lparr>config_py = Some cfg0, endpoint_json = Some (Json reg0),
      daemon_pid = Some (Some 4242), other_files = []\<rparr> = Some cfg0" by simp
  have m: "may_signal \<lparr>pname = ''funcx-endpoint'', may_signal = True, on_term = Lingers\<rparr>"
    "on_term \<lparr>pname = ''funcx-endpoint'', may_signal = True, on_term = Lingers\<rparr> = Lingers"
    by simp_all
  from restart_left_behind [OF w_busy_facts(1) c reg0_identity w_busy_facts(2) z
      w_busy_facts(3) m, of env0]
  have 6: "snd (restart_endpoint ''default'' env0 w_busy) = Inr Refused \<and>
      pidfile (fst (restart_endpoint ''default'' env0 w_busy)) ''default'' = Some (Some 4242) \<and>
      procs (fst (restart_endpoint ''default'' env0 w_busy)) 4242 = None \<and>
      procs (fst (restart_endpoint ''default'' env0 w_busy)) 5151 = None"
    by (simp add: w_busy_def)
  \<comment> \<open>the endpoint that has never registered\<close>
  have cc: "config_py \<lparr>config_py = Some cfg0, endpoint_json = None, daemon_pid = None,
      other_files = []\<rparr> = Some cfg0" by simp
  have u: "determine_uuid \<lparr>config_py = Some cfg0, endpoint_json = None, daemon_pid = None,
      other_files = []\<rparr> PyNone (uuid4 env0) = Inr (PyStr (uuid4 env0))"
    by (simp add: determine_uuid_def truthy_def)
  let ?w1 = "emit (Log INFO (''Endpoint <'' @ ''default'' @ ''> is not active.'')) w_configured"
  have l1: "lookup_dir ?w1 ''default'' = Some \<lparr>config_py = Some cfg0, endpoint_json = None,
      daemon_pid = None, other_files = []\<rparr>"
    by (simp add: w_configured_lookup)
  have p1: "pidfile ?w1 ''default'' = None" by (simp add: w_configured_pidfile)
  from start_enters_daemon [OF l1 cc u p1]
  have 7: "snd (start_endpoint ''default'' PyNone env0 (fst (stop_endpoint ''default'' w_configured))) =
     Inr (Daemon (PyStr ''9b1deb4d-3b7d-4bad-9bdd-2b0d7b3dcb6d''))"
    by (simp add: stop_no_pidfile [OF w_configured_pidfile] env0_def)
  from 1 2 3 4 5 6 7 restart_unregistered_identity show ?thesis by blast
qed

text \<open>
  Claim C4 against the code. The claim is for every start invocation: with no
  registration record and no UUID from the caller, a fresh random UUID is minted.
  \<^verbatim>\<open>restart_endpoint\<close> invokes \<^verbatim>\<open>start_endpoint(name)\<close> as a plain function, so the
  parameter \<^verbatim>\<open>endpoint_uuid\<close> holds its declared default, the object
  \<^verbatim>\<open>typer.Option(None, ...)\<close>, for which \<^verbatim>\<open>not endpoint_uuid\<close> is false. On the
  endpoint \<open>default\<close>, configured and never registered, that invocation mints no UUID:
  the daemon context is entered under the default object, which is no string at all.
  The same endpoint started by the command, where the parameter is \<^verbatim>\<open>None\<close>, runs
  under the fresh UUID.
\<close>

theorem start_from_restart_mints_no_uuid:
  "lookup_dir w_configured ''default'' =
     Some \<lparr>config_py = Some cfg0, endpoint_json = None, daemon_pid = None, other_files = []\<rparr> \<and>
   determine_uuid \<lparr>config_py = Some cfg0, endpoint_json = None, daemon_pid = None,
     other_files = []\<rparr> OptionInfo (uuid4 env0) = Inr OptionInfo \<and>
   snd (start_endpoint ''default'' OptionInfo env0 w_configured) = Inr (Daemon OptionInfo) \<and>
   snd (restart_endpoint ''default'' env0 w_configured) = Inr (Daemon OptionInfo) \<and>
   snd (start_endpoint ''default'' PyNone env0 w_configured) =
     Inr (Daemon (PyStr ''9b1deb4d-3b7d-4bad-9bdd-2b0d7b3dcb6d''))"
proof -
  let ?d = "\<lparr>config_py = Some cfg0, endpoint_json = None, daemon_pid = None, other_files = []\<rparr>"
  have c: "config_py ?d = Some cfg0" by simp
  have o: "determine_uuid ?d OptionInfo (uuid4 env0) = Inr OptionInfo"
    by (simp add: determine_uuid_def truthy_def)
  have n: "determine_uuid ?d PyNone (uuid4 env0) = Inr (PyStr (uuid4 env0))"
    by (simp add: determine_uuid_def truthy_def)
  from start_enters_daemon [OF w_configured_lookup c o w_configured_pidfile]
  have 1: "snd (start_endpoint ''default'' OptionInfo env0 w_configured) = Inr (Daemon OptionInfo)"
    by simp
  from start_enters_daemon [OF w_configured_lookup c n w_configured_pidfile]
  have 2: "snd (start_endpoint ''default'' PyNone env0 w_configured) =
     Inr (Daemon (PyStr ''9b1deb4d-3b7d-4bad-9bdd-2b0d7b3dcb6d''))"
    by (simp add: env0_def)
  from w_configured_lookup o 1 2 restart_unregistered_identity show ?thesis by blast
qed

end
